theory Spec2Isabelle
  imports Main "HOL-Library.Word" "HOL-Library.Monad_Syntax" "HOL-Library.Signed_Division"
begin

unbundle bit_operations_syntax

section \<open>Interrupt UART driver with circular buffers (uart.c), ATmega128 build\<close>

text \<open>
  The embedding follows \<^verbatim>\<open>src/uart.c\<close> as the preprocessor leaves it for the device the
  file names as its test target (\<^verbatim>\<open>__AVR_ATmega128__\<close>, TYPE 7: \<^verbatim>\<open>ATMEGA_USART0\<close> and
  \<^verbatim>\<open>ATMEGA_USART1\<close> defined, \<^verbatim>\<open>URSEL0\<close>/\<^verbatim>\<open>URSEL1\<close> undefined).

  \<^item> \<^verbatim>\<open>unsigned char\<close>/\<^verbatim>\<open>uint8_t\<close> is \<open>8 word\<close>, \<^verbatim>\<open>unsigned int\<close> is \<open>16 word\<close> (AVR),
    an \<^verbatim>\<open>int\<close> expression that cannot overflow is \<open>int\<close>.
  \<^item> The module variables and the I/O registers the code touches are the fields of one
    record, passed in and returned.
  \<^item> A C array is a list; an access outside the array is undefined behaviour in C and is
    the value \<open>None\<close> here, so every operation returns an \<open>option\<close>.
  \<^item> A write to the data register \<^verbatim>\<open>UDR0\<close> starts a transmission: the bytes written are
    appended to the log \<open>UART0_TXD\<close>. The receive side of \<^verbatim>\<open>UDR0\<close> is the field
    \<open>UART0_DATA\<close>.
\<close>

type_synonym u8 = "8 word"
type_synonym u16 = "16 word"

subsection \<open>Constants\<close>

text \<open>
  The constants of \<^verbatim>\<open>uart.h\<close>, which is not among the sources, are parameters: the sizes of
  the two buffers and the two result codes used by \<^verbatim>\<open>uart.c\<close>.
\<close>

record uart_h =
  UART_RX_BUFFER_SIZE :: nat
  UART_TX_BUFFER_SIZE :: nat
  UART_NO_DATA :: u16
  UART_BUFFER_OVERFLOW :: u16

definition UART_RX_BUFFER_MASK :: "uart_h \<Rightarrow> int" where
  "UART_RX_BUFFER_MASK h = int (UART_RX_BUFFER_SIZE h) - 1"

definition UART_TX_BUFFER_MASK :: "uart_h \<Rightarrow> int" where
  "UART_TX_BUFFER_MASK h = int (UART_TX_BUFFER_SIZE h) - 1"

text \<open>
  The buffer sizes the code can be built with: the \<^verbatim>\<open>#error\<close> check of \<^verbatim>\<open>uart.c\<close> wants a
  power of two, the indices are \<^verbatim>\<open>unsigned char\<close>, and a buffer of one slot holds nothing.
\<close>

definition buffer_size_ok :: "nat \<Rightarrow> bool" where
  "buffer_size_ok n \<longleftrightarrow> n \<in> set [2, 4, 8, 16, 32, 64, 128, 256]"

text \<open>Defined in \<^verbatim>\<open>uart.c\<close> itself.\<close>

definition GLOBAL_INTERRUPT_ENABLE :: nat where "GLOBAL_INTERRUPT_ENABLE = 7"

text \<open>Bit positions of avr-libc's \<^verbatim>\<open>avr/io.h\<close> for the ATmega128 (both USARTs alike).\<close>

definition RXCIE0 :: nat where "RXCIE0 = 7"
definition UDRIE0 :: nat where "UDRIE0 = 5"
definition RXEN0 :: nat where "RXEN0 = 4"
definition TXEN0 :: nat where "TXEN0 = 3"
definition UCSZ02 :: nat where "UCSZ02 = 2"
definition FE0 :: nat where "FE0 = 4"
definition DOR0 :: nat where "DOR0 = 3"
definition U2X0 :: nat where "U2X0 = 1"
definition UPM01 :: nat where "UPM01 = 5"
definition UPM00 :: nat where "UPM00 = 4"
definition USBS0 :: nat where "USBS0 = 3"
definition UCSZ01 :: nat where "UCSZ01 = 2"
definition UCSZ00 :: nat where "UCSZ00 = 1"

definition RXCIE1 :: nat where "RXCIE1 = 7"
definition UDRIE1 :: nat where "UDRIE1 = 5"
definition RXEN1 :: nat where "RXEN1 = 4"
definition TXEN1 :: nat where "TXEN1 = 3"
definition UCSZ12 :: nat where "UCSZ12 = 2"
definition FE1 :: nat where "FE1 = 4"
definition DOR1 :: nat where "DOR1 = 3"
definition U2X1 :: nat where "U2X1 = 1"
definition UPM11 :: nat where "UPM11 = 5"
definition UPM10 :: nat where "UPM10 = 4"
definition USBS1 :: nat where "USBS1 = 3"
definition UCSZ11 :: nat where "UCSZ11 = 2"
definition UCSZ10 :: nat where "UCSZ10 = 1"

definition UART0_UDRIE :: nat where "UART0_UDRIE = UDRIE0"
definition UART1_UDRIE :: nat where "UART1_UDRIE = UDRIE1"

text \<open>\<^verbatim>\<open>_BV(b)\<close> is \<^verbatim>\<open>1 << b\<close>, here already cut to a byte.\<close>

definition BV :: "nat \<Rightarrow> u8" where
  "BV b = push_bit b 1"

subsection \<open>State\<close>

record machine =
  UART_TxBuf :: "u8 list"
  UART_RxBuf :: "u8 list"
  UART_TxHead :: u8
  UART_TxTail :: u8
  UART_RxHead :: u8
  UART_RxTail :: u8
  UART_LastRxError :: u8
  uart0_received :: u8
  UART1_TxBuf :: "u8 list"
  UART1_RxBuf :: "u8 list"
  UART1_TxHead :: u8
  UART1_TxTail :: u8
  UART1_RxHead :: u8
  UART1_RxTail :: u8
  UART1_LastRxError :: u8
  uart1_received :: u8
  SREG :: u8
  UART0_STATUS :: u8
  UART0_CONTROL :: u8
  UART0_DATA :: u8
  UART0_TXD :: "u8 list"
  UBRR0H :: u8
  UBRR0L :: u8
  UCSR0C :: u8
  UART1_STATUS :: u8
  UART1_CONTROL :: u8
  UART1_DATA :: u8
  UART1_TXD :: "u8 list"
  UBRR1H :: u8
  UBRR1L :: u8
  UCSR1C :: u8

text \<open>
  Modelled from the spec: \<^verbatim>\<open>struct UART\<close> and \<^verbatim>\<open>struct UART1\<close> are declared in \<^verbatim>\<open>uart.h\<close>, which
  is not among the sources. The spec's Assembled-Line Accumulator is "an owned, bounded
  character sequence plus a write cursor" (\<open>msg\<close>, whose bound is the length of the list,
  and \<open>index\<close>); the Line Configuration is the baud divisor, the data-bit count, the
  stop-bit count and the parity mode. The function pointers of the struct carry no state
  and are left out. One record serves both structs. The cursor is a natural number: no
  wrap-around of the cursor itself is modelled, and a write at or beyond the length of
  \<open>msg\<close> is an access outside the array. The comment left in \<^verbatim>\<open>uart_read\<close> ("max index =
  UART_RX_BUFFER_MASK") gives \<open>msg\<close> as many elements as the receive buffer has slots;
  the concrete instances below follow it.
\<close>

record UART =
  index :: nat
  msg :: "u8 list"
  ubrr :: u16
  FDbits :: u16
  Stopbits :: u16
  Parity :: u16

subsection \<open>Array accesses\<close>

definition arr_get :: "'a list \<Rightarrow> nat \<Rightarrow> 'a option" where
  "arr_get a i = (if i < length a then Some (a ! i) else None)"

definition arr_set :: "'a list \<Rightarrow> nat \<Rightarrow> 'a \<Rightarrow> 'a list option" where
  "arr_set a i v = (if i < length a then Some (a[i := v]) else None)"

text \<open>\<^verbatim>\<open>(i + 1) & MASK\<close>, computed in \<^verbatim>\<open>int\<close> and stored in an \<^verbatim>\<open>unsigned char\<close>.\<close>

definition next_index :: "int \<Rightarrow> u8 \<Rightarrow> u8" where
  "next_index m i = word_of_int ((uint i + 1) AND m)"

subsection \<open>Ring buffer primitives of channel 0\<close>

definition uart0_txpush :: "uart_h \<Rightarrow> u8 \<Rightarrow> machine \<Rightarrow> (u8 \<times> machine) option" where
  "uart0_txpush h data s =
    (let push = next_index (UART_TX_BUFFER_MASK h) (UART_TxHead s) in
     if UART_TxTail s \<noteq> push then
       do {
         buf \<leftarrow> arr_set (UART_TxBuf s) (unat (UART_TxHead s)) data;
         Some (1, s\<lparr>UART_TxBuf := buf, UART_TxHead := push\<rparr>)
       }
     else
       do {
         buf \<leftarrow> arr_set (UART_TxBuf s) (unat push) 0;
         Some (0, s\<lparr>UART_TxBuf := buf\<rparr>)
       })"

definition uart0_txpop :: "uart_h \<Rightarrow> machine \<Rightarrow> (u8 \<times> machine) option" where
  "uart0_txpop h s =
    (let pop = next_index (UART_TX_BUFFER_MASK h) (UART_TxTail s) in
     if UART_TxTail s \<noteq> UART_TxHead s then
       do {
         data \<leftarrow> arr_get (UART_TxBuf s) (unat (UART_TxTail s));
         Some (data, s\<lparr>UART_TxTail := pop\<rparr>)
       }
     else Some (0, s))"

definition uart0_rxpush :: "uart_h \<Rightarrow> u8 \<Rightarrow> machine \<Rightarrow> (u8 \<times> machine) option" where
  "uart0_rxpush h data s =
    (let push = next_index (UART_RX_BUFFER_MASK h) (UART_RxHead s) in
     if UART_RxTail s \<noteq> push then
       do {
         buf \<leftarrow> arr_set (UART_RxBuf s) (unat (UART_RxHead s)) data;
         Some (1, s\<lparr>UART_RxBuf := buf, UART_RxHead := push\<rparr>)
       }
     else
       do {
         buf \<leftarrow> arr_set (UART_RxBuf s) (unat push) 0;
         Some (0, s\<lparr>UART_RxBuf := buf\<rparr>)
       })"

definition uart0_rxpop :: "uart_h \<Rightarrow> machine \<Rightarrow> (u8 \<times> machine) option" where
  "uart0_rxpop h s =
    (let pop = next_index (UART_RX_BUFFER_MASK h) (UART_RxTail s) in
     if UART_RxTail s \<noteq> UART_RxHead s then
       do {
         data \<leftarrow> arr_get (UART_RxBuf s) (unat (UART_RxTail s));
         Some (data, s\<lparr>UART_RxTail := pop\<rparr>)
       }
     else Some (0, s))"

subsection \<open>Foreground functions of channel 0\<close>

text \<open>
  \<^verbatim>\<open>(UART_LastRxError << 8) + data\<close> is returned as \<^verbatim>\<open>unsigned int\<close>: sixteen bits, the latch
  in the high byte.
\<close>

definition uart_getc :: "uart_h \<Rightarrow> machine \<Rightarrow> (u16 \<times> machine) option" where
  "uart_getc h s =
    (let tmptail = next_index (UART_RX_BUFFER_MASK h) (UART_RxTail s) in
     if tmptail \<noteq> UART_RxHead s then
       do {
         data \<leftarrow> arr_get (UART_RxBuf s) (unat (UART_RxTail s));
         Some (push_bit 8 (ucast (UART_LastRxError s)) + ucast data, s\<lparr>UART_RxTail := tmptail\<rparr>)
       }
     else Some (UART_NO_DATA h, s))"

definition uart_putc :: "uart_h \<Rightarrow> u8 \<Rightarrow> machine \<Rightarrow> machine option" where
  "uart_putc h data s =
    do {
      (r, s1) \<leftarrow> uart0_txpush h data s;
      Some (if r \<noteq> 0 then s1\<lparr>UART0_CONTROL := UART0_CONTROL s1 OR BV UART0_UDRIE\<rparr> else s1)
    }"

text \<open>
  \<^verbatim>\<open>uart_puts\<close>: the argument is the string up to its terminator; a null byte in the list is
  the terminator and ends the loop.
\<close>

fun uart_puts :: "uart_h \<Rightarrow> u8 list \<Rightarrow> machine \<Rightarrow> machine option" where
  "uart_puts h [] s = Some s"
| "uart_puts h (c # cs) s =
     (if c = 0 then Some s
      else do { s1 \<leftarrow> uart_putc h c s; uart_puts h cs s1 })"

text \<open>
  \<^verbatim>\<open>(UART_RX_BUFFER_MASK + UART_RxHead - UART_RxTail) % UART_RX_BUFFER_MASK\<close> in \<^verbatim>\<open>int\<close>; the
  remainder of C truncates (\<open>smod\<close>), and a zero divisor is undefined behaviour.
\<close>

definition uart_available :: "uart_h \<Rightarrow> machine \<Rightarrow> int option" where
  "uart_available h s =
    (if UART_RX_BUFFER_MASK h = 0 then None
     else Some ((UART_RX_BUFFER_MASK h + uint (UART_RxHead s) - uint (UART_RxTail s))
                 smod UART_RX_BUFFER_MASK h))"

definition uart_flush :: "machine \<Rightarrow> machine" where
  "uart_flush s = s\<lparr>UART_RxHead := UART_RxTail s\<rparr>"

text \<open>The returned pointer is \<^verbatim>\<open>uart->msg\<close>, the \<open>msg\<close> of the struct returned here.\<close>

definition uart_read :: "uart_h \<Rightarrow> UART \<Rightarrow> machine \<Rightarrow> (UART \<times> machine) option" where
  "uart_read h uart s =
    do {
      (data, s1) \<leftarrow> uart0_rxpop h s;
      if data \<noteq> 0 then
        do {
          m1 \<leftarrow> arr_set (msg uart) (index uart) data;
          m2 \<leftarrow> arr_set m1 (index uart + 1) 0;
          Some (uart\<lparr>msg := m2, index := index uart + 1\<rparr>, s1)
        }
      else Some (uart\<lparr>index := 0\<rparr>, s1)
    }"

subsection \<open>Foreground functions of channel 1\<close>

definition uart1_getc :: "uart_h \<Rightarrow> machine \<Rightarrow> (u16 \<times> machine) option" where
  "uart1_getc h s =
    (if UART1_RxHead s = UART1_RxTail s then Some (UART_NO_DATA h, s)
     else
       (let tmptail = next_index (UART_RX_BUFFER_MASK h) (UART1_RxTail s);
            s1 = s\<lparr>UART1_RxTail := tmptail\<rparr>
        in do {
          data \<leftarrow> arr_get (UART1_RxBuf s1) (unat tmptail);
          Some (push_bit 8 (ucast (UART1_LastRxError s1)) + ucast data, s1)
        }))"

definition uart1_available :: "uart_h \<Rightarrow> machine \<Rightarrow> int option" where
  "uart1_available h s =
    (if UART_RX_BUFFER_MASK h = 0 then None
     else Some ((UART_RX_BUFFER_MASK h + uint (UART1_RxHead s) - uint (UART1_RxTail s))
                 smod UART_RX_BUFFER_MASK h))"

definition uart1_flush :: "machine \<Rightarrow> machine" where
  "uart1_flush s = s\<lparr>UART1_RxHead := UART1_RxTail s\<rparr>"

text \<open>
  \<^verbatim>\<open>uart1_read\<close> returns either the string literal \<^verbatim>\<open>"empty"\<close> or \<^verbatim>\<open>uart->msg\<close>.
\<close>

datatype read_ptr = Literal_empty | Struct_msg

definition uart1_read :: "uart_h \<Rightarrow> UART \<Rightarrow> machine \<Rightarrow> (read_ptr \<times> UART \<times> machine) option" where
  "uart1_read h uart s =
    (let tmptail = next_index (UART_RX_BUFFER_MASK h) (UART1_RxTail s) in
     if UART1_RxTail s \<noteq> UART1_RxHead s \<and> int (index uart) < UART_RX_BUFFER_MASK h then
       (let s1 = s\<lparr>UART1_RxTail := tmptail\<rparr> in
        do {
          data \<leftarrow> arr_get (UART1_RxBuf s1) (unat tmptail);
          m1 \<leftarrow> arr_set (msg uart) (index uart) data;
          m2 \<leftarrow> arr_set m1 (index uart + 1) 0;
          Some (Literal_empty, uart\<lparr>msg := m2, index := index uart + 1\<rparr>, s1)
        })
     else Some (Struct_msg, uart\<lparr>index := 0\<rparr>, s))"

subsection \<open>Interrupt handlers\<close>

text \<open>The character \<^verbatim>\<open>'X'\<close> is the byte 0x58.\<close>

definition ISR_UART0_RECEIVE_INTERRUPT :: "uart_h \<Rightarrow> machine \<Rightarrow> machine option" where
  "ISR_UART0_RECEIVE_INTERRUPT h s =
    (let usr = UART0_STATUS s;
         bit9 = UART0_CONTROL s;
         bit9 = 1 AND drop_bit 1 bit9;
         lastRxError = usr AND (BV FE0 OR BV DOR0)
     in if lastRxError \<noteq> 0 then
          do { (r, s1) \<leftarrow> uart0_rxpush h 0x58 s; Some s1 }
        else
          do { (r, s1) \<leftarrow> uart0_rxpush h (UART0_DATA s) s; Some s1 })"

definition ISR_UART0_TRANSMIT_INTERRUPT :: "uart_h \<Rightarrow> machine \<Rightarrow> machine option" where
  "ISR_UART0_TRANSMIT_INTERRUPT h s =
    do {
      (data, s1) \<leftarrow> uart0_txpop h s;
      Some (if data \<noteq> 0 then s1\<lparr>UART0_TXD := UART0_TXD s1 @ [data]\<rparr>
            else s1\<lparr>UART0_CONTROL := UART0_CONTROL s1 AND NOT (BV UART0_UDRIE)\<rparr>)
    }"

definition SIGNAL_UART1_RECEIVE_INTERRUPT :: "uart_h \<Rightarrow> machine \<Rightarrow> machine option" where
  "SIGNAL_UART1_RECEIVE_INTERRUPT h s =
    (let usr = UART1_STATUS s;
         bit9 = UART1_CONTROL s;
         bit9 = 1 AND drop_bit 1 bit9;
         data = UART1_DATA s;
         lastRxError = usr AND (BV FE1 OR BV DOR1);
         tmphead = next_index (UART_RX_BUFFER_MASK h) (UART1_RxHead s)
     in if tmphead = UART1_RxTail s then
          Some (s\<lparr>UART1_LastRxError := ucast (drop_bit 8 (UART_BUFFER_OVERFLOW h))\<rparr>)
        else
          (let s1 = s\<lparr>UART1_RxHead := tmphead\<rparr> in
           do {
             buf \<leftarrow> arr_set (UART_RxBuf s1) (unat tmphead)
                      (if lastRxError \<noteq> 0 then 0x58 else data);
             Some (s1\<lparr>UART_RxBuf := buf, UART1_LastRxError := lastRxError\<rparr>)
           }))"

subsection \<open>Constructors\<close>

text \<open>
  The three \<^verbatim>\<open>switch\<close> statements of \<^verbatim>\<open>UARTenable\<close> (branch \<^verbatim>\<open>ATMEGA_USART0\<close>, \<^verbatim>\<open>URSEL0\<close>
  undefined), each on the pair of the registers and the struct being built.
\<close>

definition switch_FDbits0 :: "u16 \<Rightarrow> machine \<times> UART \<Rightarrow> machine \<times> UART" where
  "switch_FDbits0 v = (\<lambda>(s, uart).
    if v = 9 then
      (s\<lparr>UART0_CONTROL := UART0_CONTROL s OR push_bit UCSZ02 1,
         UCSR0C := UCSR0C s OR push_bit UCSZ00 3\<rparr>, uart\<lparr>FDbits := 9\<rparr>)
    else if v = 8 then
      (s\<lparr>UART0_CONTROL := UART0_CONTROL s AND NOT (push_bit UCSZ02 1),
         UCSR0C := UCSR0C s OR push_bit UCSZ00 3\<rparr>, uart\<lparr>FDbits := 8\<rparr>)
    else if v = 7 then
      (s\<lparr>UART0_CONTROL := UART0_CONTROL s AND NOT (push_bit UCSZ02 1),
         UCSR0C := (UCSR0C s OR push_bit UCSZ01 1) AND NOT (push_bit UCSZ00 1)\<rparr>,
       uart\<lparr>FDbits := 7\<rparr>)
    else if v = 6 then
      (s\<lparr>UART0_CONTROL := UART0_CONTROL s AND NOT (push_bit UCSZ02 1),
         UCSR0C := (UCSR0C s AND NOT (push_bit UCSZ01 1)) OR push_bit UCSZ00 1\<rparr>,
       uart\<lparr>FDbits := 6\<rparr>)
    else if v = 5 then
      (s\<lparr>UART0_CONTROL := UART0_CONTROL s AND NOT (push_bit UCSZ02 1),
         UCSR0C := UCSR0C s AND NOT (push_bit UCSZ00 3)\<rparr>, uart\<lparr>FDbits := 5\<rparr>)
    else
      (s\<lparr>UART0_CONTROL := UART0_CONTROL s AND NOT (push_bit UCSZ02 1),
         UCSR0C := UCSR0C s OR push_bit UCSZ00 3\<rparr>, uart\<lparr>FDbits := 8\<rparr>))"

definition switch_Stopbits0 :: "u16 \<Rightarrow> machine \<times> UART \<Rightarrow> machine \<times> UART" where
  "switch_Stopbits0 v = (\<lambda>(s, uart).
    if v = 1 then (s\<lparr>UCSR0C := UCSR0C s AND NOT (push_bit USBS0 1)\<rparr>, uart\<lparr>Stopbits := 1\<rparr>)
    else if v = 2 then (s\<lparr>UCSR0C := UCSR0C s OR push_bit USBS0 1\<rparr>, uart\<lparr>Stopbits := 2\<rparr>)
    else (s\<lparr>UCSR0C := UCSR0C s AND NOT (push_bit USBS0 1)\<rparr>, uart\<lparr>Stopbits := 1\<rparr>))"

definition switch_Parity0 :: "u16 \<Rightarrow> machine \<times> UART \<Rightarrow> machine \<times> UART" where
  "switch_Parity0 v = (\<lambda>(s, uart).
    if v = 0 then (s\<lparr>UCSR0C := UCSR0C s AND NOT (push_bit UPM00 3)\<rparr>, uart\<lparr>Parity := 0\<rparr>)
    else if v = 2 then
      (s\<lparr>UCSR0C := (UCSR0C s OR push_bit UPM01 1) AND NOT (push_bit UPM00 1)\<rparr>,
       uart\<lparr>Parity := 2\<rparr>)
    else if v = 3 then (s\<lparr>UCSR0C := UCSR0C s OR push_bit UPM00 3\<rparr>, uart\<lparr>Parity := 3\<rparr>)
    else (s\<lparr>UCSR0C := UCSR0C s AND NOT (push_bit UPM00 3)\<rparr>, uart\<lparr>Parity := 0\<rparr>))"

text \<open>
  \<^verbatim>\<open>UARTenable\<close>. The struct is a local variable of which only some fields are assigned:
  the argument \<open>uart\<close> is its content on entry. \<^verbatim>\<open>~0x8000\<close> is \<^verbatim>\<open>0x7FFF\<close> in sixteen bits.
\<close>

definition UARTenable ::
  "u16 \<Rightarrow> u16 \<Rightarrow> u16 \<Rightarrow> u16 \<Rightarrow> UART \<Rightarrow> machine \<Rightarrow> (UART \<times> machine) option" where
  "UARTenable baudrate FDbits_arg Stopbits_arg Parity_arg uart s =
    (let tSREG = SREG s;
         s = s\<lparr>SREG := SREG s AND NOT (push_bit GLOBAL_INTERRUPT_ENABLE 1)\<rparr>;
         s = s\<lparr>UART_TxHead := 0, UART_TxTail := 0, UART_RxHead := 0, UART_RxTail := 0,
               uart0_received := 0\<rparr>;
         uart = uart\<lparr>index := 0\<rparr>
     in do {
       m \<leftarrow> arr_set (msg uart) 0 0;
       let uart = uart\<lparr>msg := m, ubrr := baudrate\<rparr>;
           (s, baudrate) =
             (if baudrate AND 0x8000 \<noteq> 0
              then (s\<lparr>UART0_STATUS := push_bit U2X0 1\<rparr>, baudrate AND 0x7FFF)
              else (s, baudrate));
           s = s\<lparr>UBRR0H := ucast (drop_bit 8 baudrate), UBRR0L := ucast baudrate\<rparr>;
           s = s\<lparr>UART0_CONTROL := BV RXCIE0 OR push_bit RXEN0 1 OR push_bit TXEN0 1\<rparr>;
           (s, uart) = switch_FDbits0 FDbits_arg (s, uart);
           (s, uart) = switch_Stopbits0 Stopbits_arg (s, uart);
           (s, uart) = switch_Parity0 Parity_arg (s, uart);
           s = s\<lparr>SREG := tSREG\<rparr>;
           s = s\<lparr>SREG := SREG s OR push_bit GLOBAL_INTERRUPT_ENABLE 1\<rparr>
       in Some (uart, s)
     })"

text \<open>The same for \<^verbatim>\<open>UART1enable\<close> (\<^verbatim>\<open>URSEL1\<close> undefined).\<close>

definition switch_FDbits1 :: "u16 \<Rightarrow> machine \<times> UART \<Rightarrow> machine \<times> UART" where
  "switch_FDbits1 v = (\<lambda>(s, uart).
    if v = 9 then
      (s\<lparr>UART1_CONTROL := UART1_CONTROL s OR push_bit UCSZ12 1,
         UCSR1C := UCSR1C s OR push_bit UCSZ10 3\<rparr>, uart\<lparr>FDbits := 9\<rparr>)
    else if v = 8 then
      (s\<lparr>UART1_CONTROL := UART1_CONTROL s AND NOT (push_bit UCSZ12 1),
         UCSR1C := UCSR1C s OR push_bit UCSZ10 3\<rparr>, uart\<lparr>FDbits := 8\<rparr>)
    else if v = 7 then
      (s\<lparr>UART1_CONTROL := UART1_CONTROL s AND NOT (push_bit UCSZ12 1),
         UCSR1C := (UCSR1C s OR push_bit UCSZ11 1) AND NOT (push_bit UCSZ10 1)\<rparr>,
       uart\<lparr>FDbits := 7\<rparr>)
    else if v = 6 then
      (s\<lparr>UART1_CONTROL := UART1_CONTROL s AND NOT (push_bit UCSZ12 1),
         UCSR1C := (UCSR1C s AND NOT (push_bit UCSZ11 1)) OR push_bit UCSZ10 1\<rparr>,
       uart\<lparr>FDbits := 6\<rparr>)
    else if v = 5 then
      (s\<lparr>UART1_CONTROL := UART1_CONTROL s AND NOT (push_bit UCSZ12 1),
         UCSR1C := UCSR1C s AND NOT (push_bit UCSZ10 3)\<rparr>, uart\<lparr>FDbits := 5\<rparr>)
    else
      (s\<lparr>UART1_CONTROL := UART1_CONTROL s AND NOT (push_bit UCSZ12 1),
         UCSR1C := UCSR1C s OR push_bit UCSZ10 3\<rparr>, uart\<lparr>FDbits := 8\<rparr>))"

definition switch_Stopbits1 :: "u16 \<Rightarrow> machine \<times> UART \<Rightarrow> machine \<times> UART" where
  "switch_Stopbits1 v = (\<lambda>(s, uart).
    if v = 1 then (s\<lparr>UCSR1C := UCSR1C s AND NOT (push_bit USBS1 1)\<rparr>, uart\<lparr>Stopbits := 1\<rparr>)
    else if v = 2 then (s\<lparr>UCSR1C := UCSR1C s OR push_bit USBS1 1\<rparr>, uart\<lparr>Stopbits := 2\<rparr>)
    else (s\<lparr>UCSR1C := UCSR1C s AND NOT (push_bit USBS1 1)\<rparr>, uart\<lparr>Stopbits := 1\<rparr>))"

definition switch_Parity1 :: "u16 \<Rightarrow> machine \<times> UART \<Rightarrow> machine \<times> UART" where
  "switch_Parity1 v = (\<lambda>(s, uart).
    if v = 0 then (s\<lparr>UCSR1C := UCSR1C s AND NOT (push_bit UPM10 3)\<rparr>, uart\<lparr>Parity := 0\<rparr>)
    else if v = 2 then
      (s\<lparr>UCSR1C := (UCSR1C s OR push_bit UPM11 1) AND NOT (push_bit UPM10 1)\<rparr>,
       uart\<lparr>Parity := 2\<rparr>)
    else if v = 3 then (s\<lparr>UCSR1C := UCSR1C s OR push_bit UPM10 3\<rparr>, uart\<lparr>Parity := 3\<rparr>)
    else (s\<lparr>UCSR1C := UCSR1C s AND NOT (push_bit UPM10 3)\<rparr>, uart\<lparr>Parity := 0\<rparr>))"

definition UART1enable ::
  "u16 \<Rightarrow> u16 \<Rightarrow> u16 \<Rightarrow> u16 \<Rightarrow> UART \<Rightarrow> machine \<Rightarrow> (UART \<times> machine) option" where
  "UART1enable baudrate FDbits_arg Stopbits_arg Parity_arg uart s =
    (let tSREG = SREG s;
         s = s\<lparr>SREG := SREG s AND NOT (push_bit GLOBAL_INTERRUPT_ENABLE 1)\<rparr>;
         s = s\<lparr>UART1_TxHead := 0, UART1_TxTail := 0, UART1_RxHead := 0, UART1_RxTail := 0,
               uart1_received := 0\<rparr>;
         uart = uart\<lparr>index := 0\<rparr>
     in do {
       m \<leftarrow> arr_set (msg uart) 0 0;
       let uart = uart\<lparr>msg := m, ubrr := baudrate\<rparr>;
           (s, baudrate) =
             (if baudrate AND 0x8000 \<noteq> 0
              then (s\<lparr>UART1_STATUS := push_bit U2X1 1\<rparr>, baudrate AND 0x7FFF)
              else (s, baudrate));
           s = s\<lparr>UBRR1H := ucast (drop_bit 8 baudrate), UBRR1L := ucast baudrate\<rparr>;
           s = s\<lparr>UART1_CONTROL := BV RXCIE1 OR push_bit RXEN1 1 OR push_bit TXEN1 1\<rparr>;
           (s, uart) = switch_FDbits1 FDbits_arg (s, uart);
           (s, uart) = switch_Stopbits1 Stopbits_arg (s, uart);
           (s, uart) = switch_Parity1 Parity_arg (s, uart);
           s = s\<lparr>SREG := tSREG\<rparr>;
           s = s\<lparr>SREG := SREG s OR push_bit GLOBAL_INTERRUPT_ENABLE 1\<rparr>
       in Some (uart, s)
     })"

subsection \<open>Well-formed buffers\<close>

text \<open>
  The invariant of the data model: the array has the configured size and both indices
  are inside it.
\<close>

definition ring_ok :: "nat \<Rightarrow> u8 list \<Rightarrow> u8 \<Rightarrow> u8 \<Rightarrow> bool" where
  "ring_ok n buf head tail \<longleftrightarrow>
     buffer_size_ok n \<and> length buf = n \<and> unat head < n \<and> unat tail < n"

definition tx0_ok :: "uart_h \<Rightarrow> machine \<Rightarrow> bool" where
  "tx0_ok h s = ring_ok (UART_TX_BUFFER_SIZE h) (UART_TxBuf s) (UART_TxHead s) (UART_TxTail s)"

definition rx0_ok :: "uart_h \<Rightarrow> machine \<Rightarrow> bool" where
  "rx0_ok h s = ring_ok (UART_RX_BUFFER_SIZE h) (UART_RxBuf s) (UART_RxHead s) (UART_RxTail s)"

definition rx1_ok :: "uart_h \<Rightarrow> machine \<Rightarrow> bool" where
  "rx1_ok h s = ring_ok (UART_RX_BUFFER_SIZE h) (UART1_RxBuf s) (UART1_RxHead s) (UART1_RxTail s)"

subsection \<open>Concrete instances\<close>

text \<open>
  A build with eight slots per buffer and the result codes of the library this file
  derives from, and the machine after reset (static storage is zero).
\<close>

definition h8 :: uart_h where
  "h8 = \<lparr>UART_RX_BUFFER_SIZE = 8, UART_TX_BUFFER_SIZE = 8,
         UART_NO_DATA = 0x0100, UART_BUFFER_OVERFLOW = 0x0200\<rparr>"

definition reset8 :: machine where
  "reset8 = \<lparr>UART_TxBuf = [0, 0, 0, 0, 0, 0, 0, 0], UART_RxBuf = [0, 0, 0, 0, 0, 0, 0, 0],
     UART_TxHead = 0, UART_TxTail = 0, UART_RxHead = 0, UART_RxTail = 0,
     UART_LastRxError = 0, uart0_received = 0,
     UART1_TxBuf = [0, 0, 0, 0, 0, 0, 0, 0], UART1_RxBuf = [0, 0, 0, 0, 0, 0, 0, 0],
     UART1_TxHead = 0, UART1_TxTail = 0, UART1_RxHead = 0, UART1_RxTail = 0,
     UART1_LastRxError = 0, uart1_received = 0,
     SREG = 0, UART0_STATUS = 0, UART0_CONTROL = 0, UART0_DATA = 0, UART0_TXD = [],
     UBRR0H = 0, UBRR0L = 0, UCSR0C = 0,
     UART1_STATUS = 0, UART1_CONTROL = 0, UART1_DATA = 0, UART1_TXD = [],
     UBRR1H = 0, UBRR1L = 0, UCSR1C = 0\<rparr>"

definition struct8 :: UART where
  "struct8 = \<lparr>index = 0, msg = [0, 0, 0, 0, 0, 0, 0, 0], ubrr = 0, FDbits = 0,
     Stopbits = 0, Parity = 0\<rparr>"

text \<open>
  Both buffers of channel 0 full: seven bytes queued in each
  (transmit: slots 0 to 6, receive: slots 3 to 7 and 0 to 1).
\<close>

definition full8 :: machine where
  "full8 = reset8\<lparr>UART_TxBuf := [0x41, 0x42, 0x43, 0x44, 0x45, 0x46, 0x47, 0],
                   UART_TxHead := 7, UART_TxTail := 0,
                   UART_RxBuf := [0x36, 0x37, 0, 0x31, 0x32, 0x33, 0x34, 0x35],
                   UART_RxHead := 2, UART_RxTail := 3\<rparr>"

text \<open>
  Two bytes queued in each receive buffer; the latch of channel 1 holds a framing error.
\<close>

definition rx_two8 :: machine where
  "rx_two8 = reset8\<lparr>UART_RxBuf := [0x10, 0x11, 0x12, 0x13, 0x14, 0x15, 0x16, 0x17],
                     UART_RxHead := 3, UART_RxTail := 1,
                     UART1_RxBuf := [0x20, 0x21, 0x22, 0x23, 0x24, 0x25, 0x26, 0x27],
                     UART1_RxHead := 3, UART1_RxTail := 1, UART1_LastRxError := 0x10\<rparr>"

text \<open>
  A null byte at the tail of both buffers of channel 0, with a further byte queued behind
  it, and the transmit interrupt enabled.
\<close>

definition nul8 :: machine where
  "nul8 = reset8\<lparr>UART_TxBuf := [0x41, 0, 0x43, 0, 0, 0, 0, 0],
                  UART_TxHead := 3, UART_TxTail := 1,
                  UART_RxBuf := [0, 0x31, 0, 0, 0, 0, 0, 0],
                  UART_RxHead := 2, UART_RxTail := 0,
                  UART0_CONTROL := 0xB8\<rparr>"

text \<open>
  Seven bytes queued in each receive buffer with the head at the last slot and the tail
  at slot 0 (channel 0 stores at the head, channel 1 at the advanced head).
\<close>

definition rx_seven8 :: machine where
  "rx_seven8 = reset8\<lparr>UART_RxBuf := [0x31, 0x32, 0x33, 0x34, 0x35, 0x36, 0x37, 0],
                       UART_RxHead := 7, UART_RxTail := 0,
                       UART1_RxBuf := [0, 0x31, 0x32, 0x33, 0x34, 0x35, 0x36, 0x37],
                       UART1_RxHead := 7, UART1_RxTail := 0\<rparr>"

text \<open>
  The struct and the machine after \<^verbatim>\<open>UARTenable(103, 8, 1, 0)\<close> from reset (9600 baud at
  16 MHz), and the machine after \<^verbatim>\<open>UART1enable\<close> with the same arguments.
\<close>

definition opened_struct8 :: UART where
  "opened_struct8 = \<lparr>index = 0, msg = [0, 0, 0, 0, 0, 0, 0, 0], ubrr = 103, FDbits = 8,
     Stopbits = 1, Parity = 0\<rparr>"

definition opened8 :: machine where
  "opened8 = reset8\<lparr>SREG := 0x80, UART0_CONTROL := 0x98, UBRR0H := 0, UBRR0L := 103,
                     UCSR0C := 0x06\<rparr>"

definition opened1_8 :: machine where
  "opened1_8 = reset8\<lparr>SREG := 0x80, UART1_CONTROL := 0x98, UBRR1H := 0, UBRR1L := 103,
                     UCSR1C := 0x06\<rparr>"

text \<open>
  The states of the scenario "write \<^verbatim>\<open>'H'\<close>, write \<^verbatim>\<open>'i'\<close>, two transmit interrupts" after
  \<^verbatim>\<open>UARTenable(103, 8, 1, 0)\<close> from reset.
\<close>

definition hi_a :: machine where
  "hi_a = opened8\<lparr>UART_TxBuf := [0x48, 0, 0, 0, 0, 0, 0, 0], UART_TxHead := 1,
                   UART0_CONTROL := 0xB8\<rparr>"

definition hi_b :: machine where
  "hi_b = hi_a\<lparr>UART_TxBuf := [0x48, 0x69, 0, 0, 0, 0, 0, 0], UART_TxHead := 2\<rparr>"

definition hi_c :: machine where
  "hi_c = hi_b\<lparr>UART_TxTail := 1, UART0_TXD := [0x48]\<rparr>"

definition hi_d :: machine where
  "hi_d = hi_c\<lparr>UART_TxTail := 2, UART0_TXD := [0x48, 0x69]\<rparr>"

text \<open>
  A byte with a framing error waiting in the receiver (status \<^verbatim>\<open>RXC | FE\<close>), for channel 0,
  for channel 1, and for channel 1 with a full receive buffer.
\<close>

definition fe0_8 :: machine where
  "fe0_8 = reset8\<lparr>UART0_STATUS := 0x90, UART0_DATA := 0x41\<rparr>"

definition fe1_8 :: machine where
  "fe1_8 = reset8\<lparr>UART1_STATUS := 0x90, UART1_DATA := 0x41\<rparr>"

definition fe1_full8 :: machine where
  "fe1_full8 = reset8\<lparr>UART1_RxHead := 7, UART1_RxTail := 0,
                        UART1_STATUS := 0x90, UART1_DATA := 0x41\<rparr>"

text \<open>
  The machine after \<^verbatim>\<open>UARTenable(103, 8, 1, 0)\<close> from reset and \<^verbatim>\<open>uart_puts("ABCDEFG")\<close> with
  no transmit interrupt in between: the transmit buffer is full.
\<close>

definition full_tx8 :: machine where
  "full_tx8 = opened8\<lparr>UART_TxBuf := [0x41, 0x42, 0x43, 0x44, 0x45, 0x46, 0x47, 0],
                      UART_TxHead := 7, UART0_CONTROL := 0xB8\<rparr>"

text \<open>
  A clean byte waiting in the receiver of channel 1 after reset, and the machine after
  the receive interrupt of channel 1 has taken it.
\<close>

definition clean1_8 :: machine where
  "clean1_8 = reset8\<lparr>UART1_STATUS := 0x80, UART1_DATA := 0x41\<rparr>"

definition rcv1_8 :: machine where
  "rcv1_8 = clean1_8\<lparr>UART1_RxHead := 1, UART_RxBuf := [0, 0x41, 0, 0, 0, 0, 0, 0]\<rparr>"

subsection \<open>A driver for the line accumulator\<close>

text \<open>
  For each byte of the list: the receiver presents the byte with a clean status
  (\<^verbatim>\<open>RXC\<close> only), the receive interrupt of channel 0 fires, and the foreground calls
  \<^verbatim>\<open>uart_read\<close>.
\<close>

fun receive_and_read :: "uart_h \<Rightarrow> u8 list \<Rightarrow> UART \<times> machine \<Rightarrow> (UART \<times> machine) option" where
  "receive_and_read h [] p = Some p"
| "receive_and_read h (b # bs) (uart, s) =
     do {
       s1 \<leftarrow> ISR_UART0_RECEIVE_INTERRUPT h (s\<lparr>UART0_STATUS := 0x80, UART0_DATA := b\<rparr>);
       p \<leftarrow> uart_read h uart s1;
       receive_and_read h bs p
     }"

section \<open>Properties\<close>

subsection \<open>Index arithmetic\<close>

lemma size_pow: "buffer_size_ok n \<Longrightarrow> \<exists>k. k \<le> 8 \<and> 0 < k \<and> n = 2 ^ k"
  unfolding buffer_size_ok_def
  apply simp
  apply (elim disjE)
         apply (rule exI[of _ 1], simp)
        apply (rule exI[of _ 2], simp)
       apply (rule exI[of _ 3], simp)
      apply (rule exI[of _ 4], simp)
     apply (rule exI[of _ 5], simp)
    apply (rule exI[of _ 6], simp)
   apply (rule exI[of _ 7], simp)
  apply (rule exI[of _ 8], simp)
  done

lemma next_index_unat:
  assumes "buffer_size_ok n"
  shows "unat (next_index (int n - 1) i) = (unat i + 1) mod n"
proof -
  from assms obtain k where k: "k \<le> 8" "0 < k" "n = 2 ^ k"
    using size_pow by blast
  have m: "int n - 1 = mask k"
    by (simp add: k mask_eq_exp_minus_1)
  have "(uint i + 1) AND (int n - 1) = take_bit k (uint i + 1)"
    unfolding m by (rule take_bit_eq_mask [symmetric])
  also have "\<dots> = (uint i + 1) mod 2 ^ k"
    by (rule take_bit_eq_mod)
  also have "\<dots> = int ((unat i + 1) mod n)"
    by (simp add: k(3) zmod_int ac_simps)
  finally have e: "(uint i + 1) AND (int n - 1) = int ((unat i + 1) mod n)" .
  have "(unat i + 1) mod n < n"
    using k by simp
  also have "n \<le> 256"
    using k power_increasing[of k 8 "2::nat"] by simp
  finally have lt: "(unat i + 1) mod n < 256" .
  show ?thesis
    unfolding next_index_def e using lt by (simp add: unat_of_nat)
qed

lemma next_index_lt: "buffer_size_ok n \<Longrightarrow> unat (next_index (int n - 1) i) < n"
  using size_pow[of n] by (auto simp add: next_index_unat)

lemma next_index_eq:
  "buffer_size_ok n \<Longrightarrow> next_index (int n - 1) i = of_nat ((unat i + 1) mod n)"
proof -
  assume ok: "buffer_size_ok n"
  have "word_of_nat (unat (next_index (int n - 1) i)) = next_index (int n - 1) i"
    by simp
  then show ?thesis
    by (simp only: next_index_unat[OF ok])
qed

lemma next_index_full:
  "buffer_size_ok n \<Longrightarrow> (unat i + 1) mod n = unat j \<Longrightarrow> next_index (int n - 1) i = j"
  by (simp add: next_index_eq)

lemma rx_next:
  assumes "buffer_size_ok (UART_RX_BUFFER_SIZE h)"
  shows "next_index (UART_RX_BUFFER_MASK h) i = of_nat ((unat i + 1) mod UART_RX_BUFFER_SIZE h)"
    and "unat (next_index (UART_RX_BUFFER_MASK h) i) = (unat i + 1) mod UART_RX_BUFFER_SIZE h"
    and "unat (next_index (UART_RX_BUFFER_MASK h) i) < UART_RX_BUFFER_SIZE h"
  unfolding UART_RX_BUFFER_MASK_def
  using assms by (rule next_index_eq, rule next_index_unat, rule next_index_lt)

lemma tx_next:
  assumes "buffer_size_ok (UART_TX_BUFFER_SIZE h)"
  shows "next_index (UART_TX_BUFFER_MASK h) i = of_nat ((unat i + 1) mod UART_TX_BUFFER_SIZE h)"
    and "unat (next_index (UART_TX_BUFFER_MASK h) i) = (unat i + 1) mod UART_TX_BUFFER_SIZE h"
    and "unat (next_index (UART_TX_BUFFER_MASK h) i) < UART_TX_BUFFER_SIZE h"
  unfolding UART_TX_BUFFER_MASK_def
  using assms by (rule next_index_eq, rule next_index_unat, rule next_index_lt)

subsection \<open>Push on a full buffer\<close>

lemma txpush_full:
  assumes "tx0_ok h s"
    and "(unat (UART_TxHead s) + 1) mod UART_TX_BUFFER_SIZE h = unat (UART_TxTail s)"
  shows "uart0_txpush h b s
         = Some (0, s\<lparr>UART_TxBuf := (UART_TxBuf s)[unat (UART_TxTail s) := 0]\<rparr>)"
proof -
  from assms(1) have ok: "buffer_size_ok (UART_TX_BUFFER_SIZE h)"
    and len: "length (UART_TxBuf s) = UART_TX_BUFFER_SIZE h"
    and tl: "unat (UART_TxTail s) < UART_TX_BUFFER_SIZE h"
    by (simp_all add: tx0_ok_def ring_ok_def)
  have "next_index (UART_TX_BUFFER_MASK h) (UART_TxHead s) = UART_TxTail s"
    unfolding UART_TX_BUFFER_MASK_def using ok assms(2) by (rule next_index_full)
  then show ?thesis
    using len tl by (simp add: uart0_txpush_def arr_set_def)
qed

lemma rxpush_full:
  assumes "rx0_ok h s"
    and "(unat (UART_RxHead s) + 1) mod UART_RX_BUFFER_SIZE h = unat (UART_RxTail s)"
  shows "uart0_rxpush h b s
         = Some (0, s\<lparr>UART_RxBuf := (UART_RxBuf s)[unat (UART_RxTail s) := 0]\<rparr>)"
proof -
  from assms(1) have ok: "buffer_size_ok (UART_RX_BUFFER_SIZE h)"
    and len: "length (UART_RxBuf s) = UART_RX_BUFFER_SIZE h"
    and tl: "unat (UART_RxTail s) < UART_RX_BUFFER_SIZE h"
    by (simp_all add: rx0_ok_def ring_ok_def)
  have "next_index (UART_RX_BUFFER_MASK h) (UART_RxHead s) = UART_RxTail s"
    unfolding UART_RX_BUFFER_MASK_def using ok assms(2) by (rule next_index_full)
  then show ?thesis
    using len tl by (simp add: uart0_rxpush_def arr_set_def)
qed

text \<open>
  On a full buffer (\<open>(head + 1) mod N = tail\<close>) \<^verbatim>\<open>uart0_txpush\<close> and \<^verbatim>\<open>uart0_rxpush\<close> return 0
  and leave head, tail and every other variable as they were, but the \<^verbatim>\<open>else\<close> branch
  writes \<^verbatim>\<open>'\0'\<close> into the slot at index \<open>tail\<close>, which holds the oldest queued byte.
\<close>

lemma push_on_full_buffer_general:
  "(tx0_ok h s \<and> (unat (UART_TxHead s) + 1) mod UART_TX_BUFFER_SIZE h = unat (UART_TxTail s)
      \<longrightarrow> uart0_txpush h b s
            = Some (0, s\<lparr>UART_TxBuf := (UART_TxBuf s)[unat (UART_TxTail s) := 0]\<rparr>))
   \<and> (rx0_ok h s \<and> (unat (UART_RxHead s) + 1) mod UART_RX_BUFFER_SIZE h = unat (UART_RxTail s)
      \<longrightarrow> uart0_rxpush h b s
            = Some (0, s\<lparr>UART_RxBuf := (UART_RxBuf s)[unat (UART_RxTail s) := 0]\<rparr>))"
  using txpush_full rxpush_full by blast

text \<open>
  C1 fails on the code: a refused push destroys the oldest queued byte. After
  \<^verbatim>\<open>uart_puts("ABCDEFG")\<close> the transmit buffer of eight slots is full; the push of \<^verbatim>\<open>'H'\<close> is
  refused, the head is not advanced, and the slot of \<^verbatim>\<open>'A'\<close> holds 0 afterwards. The next
  transmit interrupt then pops that 0, sends nothing and clears \<^verbatim>\<open>UDRIE0\<close> with six bytes
  still queued. \<^verbatim>\<open>uart0_rxpush\<close> does the same to the receive buffer: with seven bytes
  queued from slot 3, the refused push puts 0 in place of the oldest byte 0x31.
\<close>

theorem push_on_full_buffer_destroys_oldest:
  "uart_puts h8 [0x41, 0x42, 0x43, 0x44, 0x45, 0x46, 0x47] opened8 = Some full_tx8
   \<and> tx0_ok h8 full_tx8
   \<and> (unat (UART_TxHead full_tx8) + 1) mod UART_TX_BUFFER_SIZE h8 = unat (UART_TxTail full_tx8)
   \<and> UART_TxBuf full_tx8 = [0x41, 0x42, 0x43, 0x44, 0x45, 0x46, 0x47, 0]
   \<and> uart0_txpush h8 0x48 full_tx8
       = Some (0, full_tx8\<lparr>UART_TxBuf := [0, 0x42, 0x43, 0x44, 0x45, 0x46, 0x47, 0]\<rparr>)
   \<and> ISR_UART0_TRANSMIT_INTERRUPT h8
         (full_tx8\<lparr>UART_TxBuf := [0, 0x42, 0x43, 0x44, 0x45, 0x46, 0x47, 0]\<rparr>)
       = Some (full_tx8\<lparr>UART_TxBuf := [0, 0x42, 0x43, 0x44, 0x45, 0x46, 0x47, 0],
                        UART_TxTail := 1, UART0_CONTROL := 0x98\<rparr>)
   \<and> UART0_TXD full_tx8 = []
   \<and> rx0_ok h8 full8
   \<and> (unat (UART_RxHead full8) + 1) mod UART_RX_BUFFER_SIZE h8 = unat (UART_RxTail full8)
   \<and> UART_RxBuf full8 = [0x36, 0x37, 0, 0x31, 0x32, 0x33, 0x34, 0x35]
   \<and> uart0_rxpush h8 0x38 full8
       = Some (0, full8\<lparr>UART_RxBuf := [0x36, 0x37, 0, 0, 0x32, 0x33, 0x34, 0x35]\<rparr>)"
  by (simp add: tx0_ok_def rx0_ok_def ring_ok_def buffer_size_ok_def h8_def full8_def full_tx8_def
      opened8_def reset8_def uart_putc_def uart0_txpush_def uart0_rxpush_def uart0_txpop_def
      ISR_UART0_TRANSMIT_INTERRUPT_def next_index_def UART_TX_BUFFER_MASK_def
      UART_RX_BUFFER_MASK_def arr_set_def arr_get_def BV_def UART0_UDRIE_def UDRIE0_def)

subsection \<open>Pop\<close>

lemma rxpop_empty: "UART_RxHead s = UART_RxTail s \<Longrightarrow> uart0_rxpop h s = Some (0, s)"
  by (simp add: uart0_rxpop_def)

lemma txpop_empty: "UART_TxTail s = UART_TxHead s \<Longrightarrow> uart0_txpop h s = Some (0, s)"
  by (simp add: uart0_txpop_def)

lemma rxpop_nonempty:
  assumes "rx0_ok h s" and "UART_RxHead s \<noteq> UART_RxTail s"
  shows "uart0_rxpop h s
         = Some (UART_RxBuf s ! unat (UART_RxTail s),
                 s\<lparr>UART_RxTail := of_nat ((unat (UART_RxTail s) + 1) mod UART_RX_BUFFER_SIZE h)\<rparr>)"
proof -
  from assms(1) have ok: "buffer_size_ok (UART_RX_BUFFER_SIZE h)"
    and len: "length (UART_RxBuf s) = UART_RX_BUFFER_SIZE h"
    and tl: "unat (UART_RxTail s) < UART_RX_BUFFER_SIZE h"
    by (simp_all add: rx0_ok_def ring_ok_def)
  show ?thesis
    using assms(2) len tl
    by (simp add: uart0_rxpop_def arr_get_def rx_next(1)[OF ok])
qed

lemma txpop_nonempty:
  assumes "tx0_ok h s" and "UART_TxTail s \<noteq> UART_TxHead s"
  shows "uart0_txpop h s
         = Some (UART_TxBuf s ! unat (UART_TxTail s),
                 s\<lparr>UART_TxTail := of_nat ((unat (UART_TxTail s) + 1) mod UART_TX_BUFFER_SIZE h)\<rparr>)"
proof -
  from assms(1) have ok: "buffer_size_ok (UART_TX_BUFFER_SIZE h)"
    and len: "length (UART_TxBuf s) = UART_TX_BUFFER_SIZE h"
    and tl: "unat (UART_TxTail s) < UART_TX_BUFFER_SIZE h"
    by (simp_all add: tx0_ok_def ring_ok_def)
  show ?thesis
    using assms(2) len tl
    by (simp add: uart0_txpop_def arr_get_def tx_next(1)[OF ok])
qed

lemma getc1_empty:
  "UART1_RxHead s = UART1_RxTail s \<Longrightarrow> uart1_getc h s = Some (UART_NO_DATA h, s)"
  by (simp add: uart1_getc_def)

lemma getc1_nonempty:
  assumes "rx1_ok h s" and "UART1_RxHead s \<noteq> UART1_RxTail s"
  shows "uart1_getc h s
         = Some (push_bit 8 (ucast (UART1_LastRxError s))
                  + ucast (UART1_RxBuf s ! ((unat (UART1_RxTail s) + 1) mod UART_RX_BUFFER_SIZE h)),
                 s\<lparr>UART1_RxTail := of_nat ((unat (UART1_RxTail s) + 1) mod UART_RX_BUFFER_SIZE h)\<rparr>)"
proof -
  from assms(1) have ok: "buffer_size_ok (UART_RX_BUFFER_SIZE h)"
    and len: "length (UART1_RxBuf s) = UART_RX_BUFFER_SIZE h"
    by (simp_all add: rx1_ok_def ring_ok_def)
  have lt: "unat (next_index (UART_RX_BUFFER_MASK h) (UART1_RxTail s)) < length (UART1_RxBuf s)"
    unfolding len using ok by (rule rx_next(3))
  have step: "uart1_getc h s
      = Some (push_bit 8 (ucast (UART1_LastRxError s))
               + ucast (UART1_RxBuf s ! unat (next_index (UART_RX_BUFFER_MASK h) (UART1_RxTail s))),
              s\<lparr>UART1_RxTail := next_index (UART_RX_BUFFER_MASK h) (UART1_RxTail s)\<rparr>)"
    using assms(2) lt by (simp add: uart1_getc_def arr_get_def Let_def)
  show ?thesis
    by (simp only: step rx_next(2)[OF ok]) (simp only: rx_next(1)[OF ok])
qed

text \<open>
  C2, as the code has it. \<^verbatim>\<open>uart0_rxpop\<close> returns \<^verbatim>\<open>'\0'\<close> and changes nothing when
  \<open>head = tail\<close>; otherwise it returns the byte at index \<open>tail\<close> and sets
  \<open>tail = (tail + 1) mod N\<close> (read, then advance). \<^verbatim>\<open>uart1_getc\<close> returns \<^verbatim>\<open>UART_NO_DATA\<close> and
  changes nothing when \<open>head = tail\<close>; otherwise it sets \<open>tail = (tail + 1) mod N\<close> and
  returns the byte at the new index (advance, then read), with the error latch in the
  high byte. Nothing is said about \<^verbatim>\<open>uart_getc\<close>.
\<close>

theorem pop_read_order:
  "(rx0_ok h s \<longrightarrow>
      (UART_RxHead s = UART_RxTail s \<longrightarrow> uart0_rxpop h s = Some (0, s))
    \<and> (UART_RxHead s \<noteq> UART_RxTail s \<longrightarrow>
         uart0_rxpop h s
         = Some (UART_RxBuf s ! unat (UART_RxTail s),
                 s\<lparr>UART_RxTail := of_nat ((unat (UART_RxTail s) + 1) mod UART_RX_BUFFER_SIZE h)\<rparr>)))
   \<and> (rx1_ok h s \<longrightarrow>
      (UART1_RxHead s = UART1_RxTail s \<longrightarrow> uart1_getc h s = Some (UART_NO_DATA h, s))
    \<and> (UART1_RxHead s \<noteq> UART1_RxTail s \<longrightarrow>
         uart1_getc h s
         = Some (push_bit 8 (ucast (UART1_LastRxError s))
                  + ucast (UART1_RxBuf s ! ((unat (UART1_RxTail s) + 1) mod UART_RX_BUFFER_SIZE h)),
                 s\<lparr>UART1_RxTail := of_nat ((unat (UART1_RxTail s) + 1) mod UART_RX_BUFFER_SIZE h)\<rparr>)))"
  using rxpop_empty rxpop_nonempty getc1_empty getc1_nonempty by blast

lemma reset8_ok: "tx0_ok h8 reset8" "rx0_ok h8 reset8" "rx1_ok h8 reset8"
  by (simp_all add: tx0_ok_def rx0_ok_def rx1_ok_def ring_ok_def buffer_size_ok_def h8_def reset8_def)

lemma rx_two8_ok: "rx0_ok h8 rx_two8" "rx1_ok h8 rx_two8"
  by (simp_all add: rx0_ok_def rx1_ok_def ring_ok_def buffer_size_ok_def h8_def reset8_def rx_two8_def)

theorem pop_read_order_witness:
  "rx0_ok h8 reset8 \<and> UART_RxHead reset8 = UART_RxTail reset8
   \<and> uart0_rxpop h8 reset8 = Some (0, reset8)
   \<and> rx1_ok h8 reset8 \<and> UART1_RxHead reset8 = UART1_RxTail reset8
   \<and> uart1_getc h8 reset8 = Some (0x0100, reset8)
   \<and> rx0_ok h8 rx_two8 \<and> UART_RxHead rx_two8 \<noteq> UART_RxTail rx_two8
   \<and> uart0_rxpop h8 rx_two8 = Some (0x11, rx_two8\<lparr>UART_RxTail := 2\<rparr>)
   \<and> rx1_ok h8 rx_two8 \<and> UART1_RxHead rx_two8 \<noteq> UART1_RxTail rx_two8
   \<and> uart1_getc h8 rx_two8 = Some (0x1022, rx_two8\<lparr>UART1_RxTail := 2\<rparr>)"
proof -
  have e: "UART_RxHead reset8 = UART_RxTail reset8" "UART1_RxHead reset8 = UART1_RxTail reset8"
    by (simp_all add: reset8_def)
  have n: "UART_RxHead rx_two8 \<noteq> UART_RxTail rx_two8" "UART1_RxHead rx_two8 \<noteq> UART1_RxTail rx_two8"
    by (simp_all add: rx_two8_def reset8_def)
  have v: "UART_NO_DATA h8 = 0x0100"
    "UART_RxBuf rx_two8 ! unat (UART_RxTail rx_two8) = 0x11"
    "word_of_nat ((unat (UART_RxTail rx_two8) + 1) mod UART_RX_BUFFER_SIZE h8) = (2 :: u8)"
    "word_of_nat ((unat (UART1_RxTail rx_two8) + 1) mod UART_RX_BUFFER_SIZE h8) = (2 :: u8)"
    "push_bit 8 (ucast (UART1_LastRxError rx_two8))
       + ucast (UART1_RxBuf rx_two8 ! ((unat (UART1_RxTail rx_two8) + 1) mod UART_RX_BUFFER_SIZE h8))
     = (0x1022 :: u16)"
    by (simp_all add: rx_two8_def reset8_def h8_def)
  have r0: "uart0_rxpop h8 reset8 = Some (0, reset8)"
    using pop_read_order[of h8 reset8] reset8_ok e by blast
  have r1: "uart1_getc h8 reset8 = Some (0x0100, reset8)"
    using pop_read_order[of h8 reset8] reset8_ok e unfolding v(1) by blast
  have "uart0_rxpop h8 rx_two8
         = Some (UART_RxBuf rx_two8 ! unat (UART_RxTail rx_two8),
                 rx_two8\<lparr>UART_RxTail := of_nat ((unat (UART_RxTail rx_two8) + 1) mod UART_RX_BUFFER_SIZE h8)\<rparr>)"
    using pop_read_order[of h8 rx_two8] rx_two8_ok n by blast
  then have r2: "uart0_rxpop h8 rx_two8 = Some (0x11, rx_two8\<lparr>UART_RxTail := 2\<rparr>)"
    by (simp only: v)
  have "uart1_getc h8 rx_two8
         = Some (push_bit 8 (ucast (UART1_LastRxError rx_two8))
                  + ucast (UART1_RxBuf rx_two8 ! ((unat (UART1_RxTail rx_two8) + 1) mod UART_RX_BUFFER_SIZE h8)),
                 rx_two8\<lparr>UART1_RxTail := of_nat ((unat (UART1_RxTail rx_two8) + 1) mod UART_RX_BUFFER_SIZE h8)\<rparr>)"
    using pop_read_order[of h8 rx_two8] rx_two8_ok n by blast
  then have r3: "uart1_getc h8 rx_two8 = Some (0x1022, rx_two8\<lparr>UART1_RxTail := 2\<rparr>)"
    by (simp only: v)
  show ?thesis
    using reset8_ok rx_two8_ok e n r0 r1 r2 r3 by blast
qed

text \<open>
  The claim as stated fails. \<^verbatim>\<open>uart1_getc\<close>, with \<open>tail = 1\<close> and the bytes 0x21 at index 1
  and 0x22 at index 2, returns 0x22. \<^verbatim>\<open>uart_getc\<close> on the empty buffer after reset does not
  return \<^verbatim>\<open>UART_NO_DATA\<close>: it returns slot 0 and moves the tail past the head.
\<close>

theorem pop_read_order_counterexample:
  "rx1_ok h8 rx_two8 \<and> UART1_RxHead rx_two8 \<noteq> UART1_RxTail rx_two8
   \<and> UART1_RxBuf rx_two8 ! unat (UART1_RxTail rx_two8) = 0x21
   \<and> uart1_getc h8 rx_two8 = Some (0x1022, rx_two8\<lparr>UART1_RxTail := 2\<rparr>)
   \<and> rx0_ok h8 reset8 \<and> UART_RxHead reset8 = UART_RxTail reset8
   \<and> UART_NO_DATA h8 = 0x0100
   \<and> uart_getc h8 reset8 = Some (0, reset8\<lparr>UART_RxTail := 1\<rparr>)"
  by (simp add: rx0_ok_def rx1_ok_def ring_ok_def buffer_size_ok_def h8_def reset8_def rx_two8_def
      uart1_getc_def uart_getc_def next_index_def UART_RX_BUFFER_MASK_def arr_get_def Let_def)

subsection \<open>The null byte\<close>

lemma UDRIE_cleared: "\<not> bit (c AND NOT (BV UART0_UDRIE)) UART0_UDRIE"
  by (simp add: BV_def UART0_UDRIE_def UDRIE0_def bit_simps)

lemma tx_isr_null:
  assumes "tx0_ok h s" and "UART_TxTail s \<noteq> UART_TxHead s"
    and "UART_TxBuf s ! unat (UART_TxTail s) = 0"
  shows "ISR_UART0_TRANSMIT_INTERRUPT h s
         = Some (s\<lparr>UART_TxTail := of_nat ((unat (UART_TxTail s) + 1) mod UART_TX_BUFFER_SIZE h),
                  UART0_CONTROL := UART0_CONTROL s AND NOT (BV UART0_UDRIE)\<rparr>)"
  unfolding ISR_UART0_TRANSMIT_INTERRUPT_def txpop_nonempty[OF assms(1,2)] assms(3)
  by simp

text \<open>
  C10. \<^verbatim>\<open>uart0_txpop\<close> and \<^verbatim>\<open>uart0_rxpop\<close> return \<^verbatim>\<open>'\0'\<close> when the buffer is empty, and
  also when it is not empty and the byte at the tail is 0x00 (then the tail advances).
  In the second case the transmit interrupt handler consumes the byte, writes nothing to
  the data register (the log \<open>UART0_TXD\<close> is unchanged) and clears the interrupt enable
  bit \<^verbatim>\<open>UDRIE0\<close>, whatever else is queued.
\<close>

theorem null_byte_pops_as_empty:
  "(tx0_ok h s \<longrightarrow>
      (UART_TxTail s = UART_TxHead s \<longrightarrow> uart0_txpop h s = Some (0, s))
    \<and> (UART_TxTail s \<noteq> UART_TxHead s \<and> UART_TxBuf s ! unat (UART_TxTail s) = 0 \<longrightarrow>
         uart0_txpop h s
         = Some (0, s\<lparr>UART_TxTail := of_nat ((unat (UART_TxTail s) + 1) mod UART_TX_BUFFER_SIZE h)\<rparr>)
       \<and> ISR_UART0_TRANSMIT_INTERRUPT h s
         = Some (s\<lparr>UART_TxTail := of_nat ((unat (UART_TxTail s) + 1) mod UART_TX_BUFFER_SIZE h),
                  UART0_CONTROL := UART0_CONTROL s AND NOT (BV UART0_UDRIE)\<rparr>)
       \<and> \<not> bit (UART0_CONTROL s AND NOT (BV UART0_UDRIE)) UART0_UDRIE))
   \<and> (rx0_ok h s \<longrightarrow>
      (UART_RxTail s = UART_RxHead s \<longrightarrow> uart0_rxpop h s = Some (0, s))
    \<and> (UART_RxTail s \<noteq> UART_RxHead s \<and> UART_RxBuf s ! unat (UART_RxTail s) = 0 \<longrightarrow>
         uart0_rxpop h s
         = Some (0, s\<lparr>UART_RxTail := of_nat ((unat (UART_RxTail s) + 1) mod UART_RX_BUFFER_SIZE h)\<rparr>)))"
proof -
  have a: "UART_TxTail s = UART_TxHead s \<Longrightarrow> uart0_txpop h s = Some (0, s)"
    by (rule txpop_empty)
  have b: "uart0_txpop h s
         = Some (0, s\<lparr>UART_TxTail := of_nat ((unat (UART_TxTail s) + 1) mod UART_TX_BUFFER_SIZE h)\<rparr>)"
    if "tx0_ok h s" "UART_TxTail s \<noteq> UART_TxHead s" "UART_TxBuf s ! unat (UART_TxTail s) = 0"
    using txpop_nonempty[OF that(1,2)] that(3) by simp
  have c: "UART_RxTail s = UART_RxHead s \<Longrightarrow> uart0_rxpop h s = Some (0, s)"
    by (simp add: rxpop_empty)
  have d: "uart0_rxpop h s
         = Some (0, s\<lparr>UART_RxTail := of_nat ((unat (UART_RxTail s) + 1) mod UART_RX_BUFFER_SIZE h)\<rparr>)"
    if "rx0_ok h s" "UART_RxTail s \<noteq> UART_RxHead s" "UART_RxBuf s ! unat (UART_RxTail s) = 0"
    using rxpop_nonempty[OF that(1)] that(2,3) by simp
  show ?thesis
    using a b c d tx_isr_null UDRIE_cleared by blast
qed

lemma nul8_ok: "tx0_ok h8 nul8" "rx0_ok h8 nul8"
  by (simp_all add: tx0_ok_def rx0_ok_def ring_ok_def buffer_size_ok_def h8_def reset8_def nul8_def)

theorem null_byte_pops_as_empty_witness:
  "tx0_ok h8 reset8 \<and> UART_TxTail reset8 = UART_TxHead reset8
   \<and> uart0_txpop h8 reset8 = Some (0, reset8)
   \<and> rx0_ok h8 reset8 \<and> UART_RxTail reset8 = UART_RxHead reset8
   \<and> uart0_rxpop h8 reset8 = Some (0, reset8)
   \<and> tx0_ok h8 nul8 \<and> UART_TxTail nul8 \<noteq> UART_TxHead nul8
   \<and> UART_TxBuf nul8 ! unat (UART_TxTail nul8) = 0
   \<and> UART_TxBuf nul8 ! 2 = 0x43 \<and> UART_TxHead nul8 = 3
   \<and> uart0_txpop h8 nul8 = Some (0, nul8\<lparr>UART_TxTail := 2\<rparr>)
   \<and> ISR_UART0_TRANSMIT_INTERRUPT h8 nul8
       = Some (nul8\<lparr>UART_TxTail := 2, UART0_CONTROL := 0x98\<rparr>)
   \<and> rx0_ok h8 nul8 \<and> UART_RxTail nul8 \<noteq> UART_RxHead nul8
   \<and> UART_RxBuf nul8 ! unat (UART_RxTail nul8) = 0
   \<and> uart0_rxpop h8 nul8 = Some (0, nul8\<lparr>UART_RxTail := 1\<rparr>)"
proof -
  have e: "UART_TxTail reset8 = UART_TxHead reset8" "UART_RxTail reset8 = UART_RxHead reset8"
    by (simp_all add: reset8_def)
  have n: "UART_TxTail nul8 \<noteq> UART_TxHead nul8" "UART_TxBuf nul8 ! unat (UART_TxTail nul8) = 0"
    "UART_RxTail nul8 \<noteq> UART_RxHead nul8" "UART_RxBuf nul8 ! unat (UART_RxTail nul8) = 0"
    "UART_TxBuf nul8 ! 2 = 0x43" "UART_TxHead nul8 = 3"
    by (simp_all add: nul8_def reset8_def)
  have v: "word_of_nat ((unat (UART_TxTail nul8) + 1) mod UART_TX_BUFFER_SIZE h8) = (2 :: u8)"
    "word_of_nat ((unat (UART_RxTail nul8) + 1) mod UART_RX_BUFFER_SIZE h8) = (1 :: u8)"
    "UART0_CONTROL nul8 AND NOT (BV UART0_UDRIE) = 0x98"
    by (simp_all add: nul8_def reset8_def h8_def BV_def UART0_UDRIE_def UDRIE0_def)
  note t0 = null_byte_pops_as_empty[of h8 reset8]
  note t1 = null_byte_pops_as_empty[of h8 nul8, unfolded v]
  show ?thesis
    using t0 t1 reset8_ok nul8_ok e n by blast
qed

subsection \<open>Available and flush\<close>

text \<open>
  C3 fails on the code. With eight slots, head 7 and tail 0, seven bytes are queued and
  \<open>(head - tail) mod N\<close> is 7, but \<^verbatim>\<open>uart_available\<close> and \<^verbatim>\<open>uart1_available\<close> return 0: the
  code divides by \<^verbatim>\<open>UART_RX_BUFFER_MASK\<close>, not by the buffer size. With head 2 and tail 3 it
  returns 6 for seven queued bytes.
\<close>

theorem available_miscounts:
  "rx0_ok h8 rx_seven8 \<and> rx1_ok h8 rx_seven8
   \<and> (uint (UART_RxHead rx_seven8) - uint (UART_RxTail rx_seven8)) mod int (UART_RX_BUFFER_SIZE h8) = 7
   \<and> uart_available h8 rx_seven8 = Some 0
   \<and> (uint (UART1_RxHead rx_seven8) - uint (UART1_RxTail rx_seven8)) mod int (UART_RX_BUFFER_SIZE h8) = 7
   \<and> uart1_available h8 rx_seven8 = Some 0
   \<and> rx0_ok h8 full8
   \<and> (uint (UART_RxHead full8) - uint (UART_RxTail full8)) mod int (UART_RX_BUFFER_SIZE h8) = 7
   \<and> uart_available h8 full8 = Some 6"
  by (simp add: rx0_ok_def rx1_ok_def ring_ok_def buffer_size_ok_def h8_def reset8_def rx_seven8_def
      full8_def uart_available_def uart1_available_def UART_RX_BUFFER_MASK_def smod_int_alt_def)

text \<open>The same for every buffer size: a buffer filled from slot 0 is reported empty.\<close>

lemma available_general:
  assumes "buffer_size_ok (UART_RX_BUFFER_SIZE h)"
    and "unat (UART_RxHead s) = UART_RX_BUFFER_SIZE h - 1" and "UART_RxTail s = 0"
  shows "uart_available h s = Some 0"
proof -
  have n: "2 \<le> UART_RX_BUFFER_SIZE h"
    using assms(1) by (auto simp add: buffer_size_ok_def)
  have "uint (UART_RxHead s) = int (unat (UART_RxHead s))"
    by simp
  also have "\<dots> = int (UART_RX_BUFFER_SIZE h - 1)"
    by (simp only: assms(2))
  also have "\<dots> = int (UART_RX_BUFFER_SIZE h) - 1"
    using n by (simp add: of_nat_diff)
  finally have u: "uint (UART_RxHead s) = int (UART_RX_BUFFER_SIZE h) - 1" .
  have "(m + m - 0) smod m = 0" for m :: int
  proof -
    have "\<bar>m + m\<bar> = 2 * \<bar>m\<bar>"
      by simp
    then show ?thesis
      by (simp add: smod_int_alt_def del: abs_add_abs)
  qed
  then have "(int (UART_RX_BUFFER_SIZE h) - 1 + (int (UART_RX_BUFFER_SIZE h) - 1) - 0)
          smod (int (UART_RX_BUFFER_SIZE h) - 1) = 0" .
  then show ?thesis
    using n by (simp add: uart_available_def UART_RX_BUFFER_MASK_def u assms(3))
qed

text \<open>
  C8, as the code has it. \<^verbatim>\<open>uart_flush\<close> and \<^verbatim>\<open>uart1_flush\<close> set \<open>head = tail\<close>: the tail and
  the storage are unchanged, the head takes the value of the tail, the buffer is empty
  afterwards (the pop of the channel reports no data and changes nothing), and a second
  flush changes nothing.
\<close>

theorem flush_empties:
  "UART_RxHead (uart_flush s) = UART_RxTail s
   \<and> UART_RxTail (uart_flush s) = UART_RxTail s
   \<and> UART_RxBuf (uart_flush s) = UART_RxBuf s
   \<and> uart0_rxpop h (uart_flush s) = Some (0, uart_flush s)
   \<and> uart_flush (uart_flush s) = uart_flush s
   \<and> UART1_RxHead (uart1_flush s) = UART1_RxTail s
   \<and> UART1_RxTail (uart1_flush s) = UART1_RxTail s
   \<and> UART1_RxBuf (uart1_flush s) = UART1_RxBuf s
   \<and> uart1_getc h (uart1_flush s) = Some (UART_NO_DATA h, uart1_flush s)
   \<and> uart1_flush (uart1_flush s) = uart1_flush s"
  by (simp add: uart_flush_def uart1_flush_def uart0_rxpop_def uart1_getc_def)

text \<open>
  The claim as stated fails: with head 3 and tail 1 the flush moves the head to 1; the
  tail is not set to the head.
\<close>

theorem flush_empties_counterexample:
  "UART_RxHead rx_two8 = 3 \<and> UART_RxTail rx_two8 = 1
   \<and> UART_RxHead (uart_flush rx_two8) = 1 \<and> UART_RxTail (uart_flush rx_two8) = 1
   \<and> UART1_RxHead rx_two8 = 3 \<and> UART1_RxTail rx_two8 = 1
   \<and> UART1_RxHead (uart1_flush rx_two8) = 1 \<and> UART1_RxTail (uart1_flush rx_two8) = 1"
  by (simp add: uart_flush_def uart1_flush_def rx_two8_def reset8_def)

subsection \<open>Initialisation\<close>

lemma switch0_frame:
  "UART_TxHead (fst (switch_FDbits0 v p)) = UART_TxHead (fst p)"
  "UART_TxTail (fst (switch_FDbits0 v p)) = UART_TxTail (fst p)"
  "UART_RxHead (fst (switch_FDbits0 v p)) = UART_RxHead (fst p)"
  "UART_RxTail (fst (switch_FDbits0 v p)) = UART_RxTail (fst p)"
  "UART_TxBuf (fst (switch_FDbits0 v p)) = UART_TxBuf (fst p)"
  "UART0_TXD (fst (switch_FDbits0 v p)) = UART0_TXD (fst p)"
  "UART_TxHead (fst (switch_Stopbits0 v p)) = UART_TxHead (fst p)"
  "UART_TxTail (fst (switch_Stopbits0 v p)) = UART_TxTail (fst p)"
  "UART_RxHead (fst (switch_Stopbits0 v p)) = UART_RxHead (fst p)"
  "UART_RxTail (fst (switch_Stopbits0 v p)) = UART_RxTail (fst p)"
  "UART_TxBuf (fst (switch_Stopbits0 v p)) = UART_TxBuf (fst p)"
  "UART0_TXD (fst (switch_Stopbits0 v p)) = UART0_TXD (fst p)"
  "UART_TxHead (fst (switch_Parity0 v p)) = UART_TxHead (fst p)"
  "UART_TxTail (fst (switch_Parity0 v p)) = UART_TxTail (fst p)"
  "UART_RxHead (fst (switch_Parity0 v p)) = UART_RxHead (fst p)"
  "UART_RxTail (fst (switch_Parity0 v p)) = UART_RxTail (fst p)"
  "UART_TxBuf (fst (switch_Parity0 v p)) = UART_TxBuf (fst p)"
  "UART0_TXD (fst (switch_Parity0 v p)) = UART0_TXD (fst p)"
  by (simp_all add: switch_FDbits0_def switch_Stopbits0_def switch_Parity0_def split_beta)

lemma switch1_frame:
  "UART1_TxHead (fst (switch_FDbits1 v p)) = UART1_TxHead (fst p)"
  "UART1_TxTail (fst (switch_FDbits1 v p)) = UART1_TxTail (fst p)"
  "UART1_RxHead (fst (switch_FDbits1 v p)) = UART1_RxHead (fst p)"
  "UART1_RxTail (fst (switch_FDbits1 v p)) = UART1_RxTail (fst p)"
  "UART1_TxHead (fst (switch_Stopbits1 v p)) = UART1_TxHead (fst p)"
  "UART1_TxTail (fst (switch_Stopbits1 v p)) = UART1_TxTail (fst p)"
  "UART1_RxHead (fst (switch_Stopbits1 v p)) = UART1_RxHead (fst p)"
  "UART1_RxTail (fst (switch_Stopbits1 v p)) = UART1_RxTail (fst p)"
  "UART1_TxHead (fst (switch_Parity1 v p)) = UART1_TxHead (fst p)"
  "UART1_TxTail (fst (switch_Parity1 v p)) = UART1_TxTail (fst p)"
  "UART1_RxHead (fst (switch_Parity1 v p)) = UART1_RxHead (fst p)"
  "UART1_RxTail (fst (switch_Parity1 v p)) = UART1_RxTail (fst p)"
  by (simp_all add: switch_FDbits1_def switch_Stopbits1_def switch_Parity1_def split_beta)

lemma I_bit_set: "bit (c OR push_bit GLOBAL_INTERRUPT_ENABLE 1 :: u8) GLOBAL_INTERRUPT_ENABLE"
  by (simp add: GLOBAL_INTERRUPT_ENABLE_def bit_simps)

lemma UARTenable_state:
  assumes "msg uart \<noteq> []"
  shows "\<exists>u' s'. UARTenable b f st p uart s = Some (u', s')
          \<and> UART_TxHead s' = 0 \<and> UART_TxTail s' = 0 \<and> UART_RxHead s' = 0 \<and> UART_RxTail s' = 0
          \<and> UART_TxBuf s' = UART_TxBuf s \<and> UART0_TXD s' = UART0_TXD s
          \<and> SREG s' = SREG s OR push_bit GLOBAL_INTERRUPT_ENABLE 1"
  using assms
  by (simp add: UARTenable_def Let_def arr_set_def split_beta switch0_frame)

lemma UART1enable_state:
  assumes "msg uart \<noteq> []"
  shows "\<exists>u' s'. UART1enable b f st p uart s = Some (u', s')
          \<and> UART1_TxHead s' = 0 \<and> UART1_TxTail s' = 0 \<and> UART1_RxHead s' = 0 \<and> UART1_RxTail s' = 0
          \<and> SREG s' = SREG s OR push_bit GLOBAL_INTERRUPT_ENABLE 1"
  using assms
  by (simp add: UART1enable_def Let_def arr_set_def split_beta switch1_frame)

text \<open>
  C4, as the code has it. \<^verbatim>\<open>UARTenable\<close> and \<^verbatim>\<open>UART1enable\<close> reset the four buffer indices
  of their channel to 0, and on exit the status register is the one of the entry with
  the global interrupt enable bit set: the code restores the saved value and then
  executes \<^verbatim>\<open>SREG |= (1 << GLOBAL_INTERRUPT_ENABLE)\<close>, so interrupts are enabled on return
  whatever the state on entry.
\<close>

theorem enable_sets_interrupt_flag:
  "msg uart \<noteq> [] \<longrightarrow>
     (\<exists>u' s'. UARTenable b f st p uart s = Some (u', s')
        \<and> UART_TxHead s' = 0 \<and> UART_TxTail s' = 0 \<and> UART_RxHead s' = 0 \<and> UART_RxTail s' = 0
        \<and> SREG s' = SREG s OR push_bit GLOBAL_INTERRUPT_ENABLE 1
        \<and> bit (SREG s') GLOBAL_INTERRUPT_ENABLE)
   \<and> (\<exists>u' s'. UART1enable b f st p uart s = Some (u', s')
        \<and> UART1_TxHead s' = 0 \<and> UART1_TxTail s' = 0 \<and> UART1_RxHead s' = 0 \<and> UART1_RxTail s' = 0
        \<and> SREG s' = SREG s OR push_bit GLOBAL_INTERRUPT_ENABLE 1
        \<and> bit (SREG s') GLOBAL_INTERRUPT_ENABLE)"
proof (intro impI conjI)
  assume m: "msg uart \<noteq> []"
  from UARTenable_state[OF m, of b f st p s] I_bit_set
  show "\<exists>u' s'. UARTenable b f st p uart s = Some (u', s')
        \<and> UART_TxHead s' = 0 \<and> UART_TxTail s' = 0 \<and> UART_RxHead s' = 0 \<and> UART_RxTail s' = 0
        \<and> SREG s' = SREG s OR push_bit GLOBAL_INTERRUPT_ENABLE 1
        \<and> bit (SREG s') GLOBAL_INTERRUPT_ENABLE"
    by metis
  from UART1enable_state[OF m, of b f st p s] I_bit_set
  show "\<exists>u' s'. UART1enable b f st p uart s = Some (u', s')
        \<and> UART1_TxHead s' = 0 \<and> UART1_TxTail s' = 0 \<and> UART1_RxHead s' = 0 \<and> UART1_RxTail s' = 0
        \<and> SREG s' = SREG s OR push_bit GLOBAL_INTERRUPT_ENABLE 1
        \<and> bit (SREG s') GLOBAL_INTERRUPT_ENABLE"
    by metis
qed

text \<open>
  The claim as stated fails: entered with interrupts disabled (\<open>SREG = 0\<close>), both
  constructors return with \<open>SREG = 0x80\<close>.
\<close>

theorem enable_sets_interrupt_flag_counterexample:
  "\<not> bit (SREG reset8) GLOBAL_INTERRUPT_ENABLE
   \<and> UARTenable 103 8 1 0 struct8 reset8 = Some (opened_struct8, opened8)
   \<and> bit (SREG opened8) GLOBAL_INTERRUPT_ENABLE
   \<and> UART1enable 103 8 1 0 struct8 reset8 = Some (opened_struct8, opened1_8)
   \<and> bit (SREG opened1_8) GLOBAL_INTERRUPT_ENABLE"
  by (simp add: UARTenable_def UART1enable_def Let_def arr_set_def
      switch_FDbits0_def switch_Stopbits0_def switch_Parity0_def
      switch_FDbits1_def switch_Stopbits1_def switch_Parity1_def
      struct8_def reset8_def opened_struct8_def opened8_def opened1_8_def
      GLOBAL_INTERRUPT_ENABLE_def BV_def RXCIE0_def RXEN0_def TXEN0_def UCSZ02_def UCSZ00_def
      UCSZ01_def USBS0_def UPM00_def UPM01_def U2X0_def
      RXCIE1_def RXEN1_def TXEN1_def UCSZ12_def UCSZ10_def
      UCSZ11_def USBS1_def UPM10_def UPM11_def U2X1_def)

theorem enable_sets_interrupt_flag_witness:
  "msg struct8 \<noteq> []
   \<and> (\<exists>u' s'. UARTenable 103 8 1 0 struct8 reset8 = Some (u', s')
        \<and> UART_TxHead s' = 0 \<and> UART_TxTail s' = 0 \<and> UART_RxHead s' = 0 \<and> UART_RxTail s' = 0
        \<and> SREG s' = SREG reset8 OR push_bit GLOBAL_INTERRUPT_ENABLE 1
        \<and> bit (SREG s') GLOBAL_INTERRUPT_ENABLE)
   \<and> (\<exists>u' s'. UART1enable 103 8 1 0 struct8 reset8 = Some (u', s')
        \<and> UART1_TxHead s' = 0 \<and> UART1_TxTail s' = 0 \<and> UART1_RxHead s' = 0 \<and> UART1_RxTail s' = 0
        \<and> SREG s' = SREG reset8 OR push_bit GLOBAL_INTERRUPT_ENABLE 1
        \<and> bit (SREG s') GLOBAL_INTERRUPT_ENABLE)"
proof -
  have m: "msg struct8 \<noteq> []"
    by (simp add: struct8_def)
  with enable_sets_interrupt_flag[of struct8 103 8 1 0 reset8] show ?thesis
    by blast
qed

subsection \<open>Transmit path\<close>

lemma txpush_nonfull:
  assumes "tx0_ok h s"
    and "(unat (UART_TxHead s) + 1) mod UART_TX_BUFFER_SIZE h \<noteq> unat (UART_TxTail s)"
  shows "uart0_txpush h d s
         = Some (1, s\<lparr>UART_TxBuf := (UART_TxBuf s)[unat (UART_TxHead s) := d],
                     UART_TxHead := of_nat ((unat (UART_TxHead s) + 1) mod UART_TX_BUFFER_SIZE h)\<rparr>)"
proof -
  from assms(1) have ok: "buffer_size_ok (UART_TX_BUFFER_SIZE h)"
    and len: "length (UART_TxBuf s) = UART_TX_BUFFER_SIZE h"
    and hd: "unat (UART_TxHead s) < UART_TX_BUFFER_SIZE h"
    by (simp_all add: tx0_ok_def ring_ok_def)
  have "unat (UART_TxTail s) \<noteq> unat (next_index (UART_TX_BUFFER_MASK h) (UART_TxHead s))"
    using assms(2) by (simp only: tx_next(2)[OF ok])
  then have ne: "UART_TxTail s \<noteq> next_index (UART_TX_BUFFER_MASK h) (UART_TxHead s)"
    by auto
  have step: "uart0_txpush h d s
      = Some (1, s\<lparr>UART_TxBuf := (UART_TxBuf s)[unat (UART_TxHead s) := d],
                  UART_TxHead := next_index (UART_TX_BUFFER_MASK h) (UART_TxHead s)\<rparr>)"
    using ne len hd by (simp add: uart0_txpush_def arr_set_def Let_def)
  show ?thesis
    by (simp only: step tx_next(1)[OF ok])
qed

lemma putc_nonfull:
  assumes "tx0_ok h s"
    and "(unat (UART_TxHead s) + 1) mod UART_TX_BUFFER_SIZE h \<noteq> unat (UART_TxTail s)"
  shows "uart_putc h d s
         = Some (s\<lparr>UART_TxBuf := (UART_TxBuf s)[unat (UART_TxHead s) := d],
                  UART_TxHead := of_nat ((unat (UART_TxHead s) + 1) mod UART_TX_BUFFER_SIZE h),
                  UART0_CONTROL := UART0_CONTROL s OR BV UART0_UDRIE\<rparr>)"
  unfolding uart_putc_def txpush_nonfull[OF assms] by simp

lemma tx_isr_data:
  assumes "tx0_ok h s" and "UART_TxTail s \<noteq> UART_TxHead s"
    and "UART_TxBuf s ! unat (UART_TxTail s) \<noteq> 0"
  shows "ISR_UART0_TRANSMIT_INTERRUPT h s
         = Some (s\<lparr>UART_TxTail := of_nat ((unat (UART_TxTail s) + 1) mod UART_TX_BUFFER_SIZE h),
                  UART0_TXD := UART0_TXD s @ [UART_TxBuf s ! unat (UART_TxTail s)]\<rparr>)"
  unfolding ISR_UART0_TRANSMIT_INTERRUPT_def txpop_nonempty[OF assms(1,2)]
  using assms(3) by simp

lemma tx_isr_empty:
  assumes "UART_TxTail s = UART_TxHead s"
  shows "ISR_UART0_TRANSMIT_INTERRUPT h s
         = Some (s\<lparr>UART0_CONTROL := UART0_CONTROL s AND NOT (BV UART0_UDRIE)\<rparr>)"
  unfolding ISR_UART0_TRANSMIT_INTERRUPT_def txpop_empty[OF assms] by simp

lemma UDRIE_set: "bit (c OR BV UART0_UDRIE) UART0_UDRIE"
  by (simp add: BV_def UART0_UDRIE_def UDRIE0_def bit_simps)

text \<open>
  C7, as the code has it. From any state, with a transmit buffer of at least four slots:
  after \<^verbatim>\<open>UARTenable\<close>, \<^verbatim>\<open>uart_putc('H')\<close>, \<^verbatim>\<open>uart_putc('i')\<close> and two firings of the transmit
  interrupt, the data register has received \<^verbatim>\<open>'H'\<close> then \<^verbatim>\<open>'i'\<close> and the transmit buffer is
  empty, but the interrupt enable bit \<^verbatim>\<open>UDRIE0\<close> is still set. The third firing, which
  finds the buffer empty, writes nothing and clears the bit.
\<close>

theorem write_Hi_then_drain:
  assumes ok: "buffer_size_ok (UART_TX_BUFFER_SIZE h)" and big: "4 \<le> UART_TX_BUFFER_SIZE h"
    and len: "length (UART_TxBuf s) = UART_TX_BUFFER_SIZE h" and m: "msg uart \<noteq> []"
  shows "\<exists>u s1 s2 s3 s4 s5 s6.
           UARTenable b f st p uart s = Some (u, s1)
         \<and> uart_putc h 0x48 s1 = Some s2 \<and> uart_putc h 0x69 s2 = Some s3
         \<and> ISR_UART0_TRANSMIT_INTERRUPT h s3 = Some s4
         \<and> ISR_UART0_TRANSMIT_INTERRUPT h s4 = Some s5
         \<and> ISR_UART0_TRANSMIT_INTERRUPT h s5 = Some s6
         \<and> UART0_TXD s5 = UART0_TXD s @ [0x48, 0x69]
         \<and> UART_TxHead s5 = UART_TxTail s5 \<and> bit (UART0_CONTROL s5) UART0_UDRIE
         \<and> UART0_TXD s6 = UART0_TXD s5
         \<and> UART_TxHead s6 = UART_TxTail s6 \<and> \<not> bit (UART0_CONTROL s6) UART0_UDRIE"
proof -
  from UARTenable_state[OF m, of b f st p s] obtain u s1 where
    e: "UARTenable b f st p uart s = Some (u, s1)"
    and i1: "UART_TxHead s1 = 0" "UART_TxTail s1 = 0"
    and b1: "UART_TxBuf s1 = UART_TxBuf s" and w1: "UART0_TXD s1 = UART0_TXD s"
    by blast
  have n: "1 mod UART_TX_BUFFER_SIZE h = 1" "2 mod UART_TX_BUFFER_SIZE h = 2"
    using big by simp_all
  have ok1: "tx0_ok h s1"
    using ok big len by (simp add: tx0_ok_def ring_ok_def i1 b1)
  define s2 where "s2 = s1\<lparr>UART_TxBuf := (UART_TxBuf s)[0 := 0x48], UART_TxHead := 1,
    UART0_CONTROL := UART0_CONTROL s1 OR BV UART0_UDRIE\<rparr>"
  have p1: "uart_putc h 0x48 s1 = Some s2"
    using putc_nonfull[OF ok1, of "0x48"] big by (simp add: i1 b1 n s2_def)
  have ok2: "tx0_ok h s2"
    using ok big len by (simp add: tx0_ok_def ring_ok_def s2_def i1)
  define s3 where "s3 = s2\<lparr>UART_TxBuf := (UART_TxBuf s)[0 := 0x48, 1 := 0x69], UART_TxHead := 2,
    UART0_CONTROL := UART0_CONTROL s2 OR BV UART0_UDRIE\<rparr>"
  have p2: "uart_putc h 0x69 s2 = Some s3"
    using putc_nonfull[OF ok2, of "0x69"] big by (simp add: s2_def i1 n s3_def)
  have ok3: "tx0_ok h s3"
    using ok big len by (simp add: tx0_ok_def ring_ok_def s3_def s2_def i1)
  define s4 where "s4 = s3\<lparr>UART_TxTail := 1, UART0_TXD := UART0_TXD s @ [0x48]\<rparr>"
  have t1: "ISR_UART0_TRANSMIT_INTERRUPT h s3 = Some s4"
    using tx_isr_data[OF ok3] big len by (simp add: s3_def s2_def i1 w1 n s4_def)
  have ok4: "tx0_ok h s4"
    using ok big len by (simp add: tx0_ok_def ring_ok_def s4_def s3_def s2_def i1)
  define s5 where "s5 = s4\<lparr>UART_TxTail := 2, UART0_TXD := UART0_TXD s @ [0x48, 0x69]\<rparr>"
  have t2: "ISR_UART0_TRANSMIT_INTERRUPT h s4 = Some s5"
    using tx_isr_data[OF ok4] big len by (simp add: s4_def s3_def s2_def i1 w1 n s5_def)
  define s6 where "s6 = s5\<lparr>UART0_CONTROL := UART0_CONTROL s5 AND NOT (BV UART0_UDRIE)\<rparr>"
  have t3: "ISR_UART0_TRANSMIT_INTERRUPT h s5 = Some s6"
    using tx_isr_empty[of s5 h] by (simp add: s5_def s4_def s3_def s6_def)
  have r5: "UART0_TXD s5 = UART0_TXD s @ [0x48, 0x69]" "UART_TxHead s5 = UART_TxTail s5"
    "bit (UART0_CONTROL s5) UART0_UDRIE"
    by (simp_all add: s5_def s4_def s3_def UDRIE_set)
  have r6: "UART0_TXD s6 = UART0_TXD s5" "UART_TxHead s6 = UART_TxTail s6"
    "\<not> bit (UART0_CONTROL s6) UART0_UDRIE"
    using r5(2) by (simp_all add: s6_def UDRIE_cleared)
  from e p1 p2 t1 t2 t3 r5 r6 show ?thesis
    by blast
qed

theorem write_Hi_then_drain_witness:
  "buffer_size_ok (UART_TX_BUFFER_SIZE h8) \<and> 4 \<le> UART_TX_BUFFER_SIZE h8
   \<and> length (UART_TxBuf reset8) = UART_TX_BUFFER_SIZE h8 \<and> msg struct8 \<noteq> []
   \<and> (\<exists>u s1 s2 s3 s4 s5 s6.
           UARTenable 103 8 1 0 struct8 reset8 = Some (u, s1)
         \<and> uart_putc h8 0x48 s1 = Some s2 \<and> uart_putc h8 0x69 s2 = Some s3
         \<and> ISR_UART0_TRANSMIT_INTERRUPT h8 s3 = Some s4
         \<and> ISR_UART0_TRANSMIT_INTERRUPT h8 s4 = Some s5
         \<and> ISR_UART0_TRANSMIT_INTERRUPT h8 s5 = Some s6
         \<and> UART0_TXD s5 = UART0_TXD reset8 @ [0x48, 0x69]
         \<and> UART_TxHead s5 = UART_TxTail s5 \<and> bit (UART0_CONTROL s5) UART0_UDRIE
         \<and> UART0_TXD s6 = UART0_TXD s5
         \<and> UART_TxHead s6 = UART_TxTail s6 \<and> \<not> bit (UART0_CONTROL s6) UART0_UDRIE)"
proof -
  have a: "buffer_size_ok (UART_TX_BUFFER_SIZE h8)" "4 \<le> UART_TX_BUFFER_SIZE h8"
    "length (UART_TxBuf reset8) = UART_TX_BUFFER_SIZE h8" "msg struct8 \<noteq> []"
    by (simp_all add: buffer_size_ok_def h8_def reset8_def struct8_def)
  from write_Hi_then_drain[OF a, of 103 8 1 0] a show ?thesis
    by blast
qed

text \<open>
  The claim as stated fails: after the two firings that send \<^verbatim>\<open>'H'\<close> and \<^verbatim>\<open>'i'\<close> the buffer
  is empty and the transmit interrupt is still enabled (\<open>UART0_CONTROL = 0xB8\<close>).
\<close>

theorem write_Hi_then_drain_counterexample:
  "UARTenable 103 8 1 0 struct8 reset8 = Some (opened_struct8, opened8)
   \<and> uart_putc h8 0x48 opened8 = Some hi_a
   \<and> uart_putc h8 0x69 hi_a = Some hi_b
   \<and> ISR_UART0_TRANSMIT_INTERRUPT h8 hi_b = Some hi_c
   \<and> ISR_UART0_TRANSMIT_INTERRUPT h8 hi_c = Some hi_d
   \<and> UART0_TXD hi_d = [0x48, 0x69]
   \<and> UART_TxHead hi_d = UART_TxTail hi_d
   \<and> UART0_CONTROL hi_d = 0xB8
   \<and> bit (UART0_CONTROL hi_d) UART0_UDRIE"
  by (simp add: UARTenable_def Let_def arr_set_def arr_get_def
      switch_FDbits0_def switch_Stopbits0_def switch_Parity0_def
      struct8_def reset8_def opened_struct8_def opened8_def h8_def
      hi_a_def hi_b_def hi_c_def hi_d_def
      uart_putc_def uart0_txpush_def uart0_txpop_def ISR_UART0_TRANSMIT_INTERRUPT_def
      next_index_def UART_TX_BUFFER_MASK_def
      GLOBAL_INTERRUPT_ENABLE_def BV_def RXCIE0_def RXEN0_def TXEN0_def UCSZ02_def UCSZ00_def
      UCSZ01_def USBS0_def UPM00_def UPM01_def U2X0_def UART0_UDRIE_def UDRIE0_def bit_simps)

subsection \<open>Receive path\<close>

lemma high_byte: "ucast (drop_bit 8 (push_bit 8 (ucast (e :: u8)) + ucast (d :: u8) :: u16)) = e"
proof -
  have "push_bit 8 (ucast e) + (ucast d :: u16) = push_bit 8 (ucast e) OR ucast d"
    by (rule disjunctive_add) (auto simp add: bit_simps dest: bit_imp_le_length) 
  then show ?thesis
    by (auto simp add: bit_eq_iff bit_simps dest: bit_imp_le_length)
qed

lemma getc1_high_byte:
  assumes "rx1_ok h s" and "UART1_RxHead s \<noteq> UART1_RxTail s"
  shows "\<exists>v s'. uart1_getc h s = Some (v, s') \<and> ucast (drop_bit 8 v) = UART1_LastRxError s"
  unfolding getc1_nonempty[OF assms] by (simp add: high_byte)

lemma rx1_isr_full:
  assumes "rx1_ok h s"
    and "(unat (UART1_RxHead s) + 1) mod UART_RX_BUFFER_SIZE h = unat (UART1_RxTail s)"
  shows "SIGNAL_UART1_RECEIVE_INTERRUPT h s
         = Some (s\<lparr>UART1_LastRxError := ucast (drop_bit 8 (UART_BUFFER_OVERFLOW h))\<rparr>)"
proof -
  from assms(1) have ok: "buffer_size_ok (UART_RX_BUFFER_SIZE h)"
    by (simp add: rx1_ok_def ring_ok_def)
  have "next_index (UART_RX_BUFFER_MASK h) (UART1_RxHead s) = UART1_RxTail s"
    unfolding UART_RX_BUFFER_MASK_def using ok assms(2) by (rule next_index_full)
  then show ?thesis
    by (simp add: SIGNAL_UART1_RECEIVE_INTERRUPT_def Let_def)
qed

lemma rx1_isr_nonfull:
  assumes "rx1_ok h s" and "length (UART_RxBuf s) = UART_RX_BUFFER_SIZE h"
    and "(unat (UART1_RxHead s) + 1) mod UART_RX_BUFFER_SIZE h \<noteq> unat (UART1_RxTail s)"
  shows "SIGNAL_UART1_RECEIVE_INTERRUPT h s
         = Some (s\<lparr>UART1_RxHead := of_nat ((unat (UART1_RxHead s) + 1) mod UART_RX_BUFFER_SIZE h),
                  UART_RxBuf := (UART_RxBuf s)[(unat (UART1_RxHead s) + 1) mod UART_RX_BUFFER_SIZE h :=
                     if UART1_STATUS s AND (BV FE1 OR BV DOR1) \<noteq> 0 then 0x58 else UART1_DATA s],
                  UART1_LastRxError := UART1_STATUS s AND (BV FE1 OR BV DOR1)\<rparr>)"
proof -
  from assms(1) have ok: "buffer_size_ok (UART_RX_BUFFER_SIZE h)"
    by (simp add: rx1_ok_def ring_ok_def)
  have "unat (next_index (UART_RX_BUFFER_MASK h) (UART1_RxHead s)) \<noteq> unat (UART1_RxTail s)"
    using assms(3) by (simp only: rx_next(2)[OF ok] not_False_eq_True)
  then have ne: "next_index (UART_RX_BUFFER_MASK h) (UART1_RxHead s) \<noteq> UART1_RxTail s"
    by auto
  have lt: "unat (next_index (UART_RX_BUFFER_MASK h) (UART1_RxHead s)) < length (UART_RxBuf s)"
    unfolding assms(2) using ok by (rule rx_next(3))
  have step: "SIGNAL_UART1_RECEIVE_INTERRUPT h s
      = Some (s\<lparr>UART1_RxHead := next_index (UART_RX_BUFFER_MASK h) (UART1_RxHead s),
                UART_RxBuf := (UART_RxBuf s)[unat (next_index (UART_RX_BUFFER_MASK h) (UART1_RxHead s)) :=
                     if UART1_STATUS s AND (BV FE1 OR BV DOR1) \<noteq> 0 then 0x58 else UART1_DATA s],
                UART1_LastRxError := UART1_STATUS s AND (BV FE1 OR BV DOR1)\<rparr>)"
    using ne lt by (simp add: SIGNAL_UART1_RECEIVE_INTERRUPT_def Let_def arr_set_def)
  show ?thesis
    by (simp only: step rx_next(2)[OF ok]) (simp only: rx_next(1)[OF ok])
qed

text \<open>
  C5, as the code has it, for channel 1. The handler \<^verbatim>\<open>SIGNAL(UART1_RECEIVE_INTERRUPT)\<close>
  always writes \<^verbatim>\<open>UART1_LastRxError\<close> before it returns, whatever the latch held before:
  the framing and overrun bits of the status register when the byte was stored, and the
  code \<^verbatim>\<open>UART_BUFFER_OVERFLOW >> 8\<close> when the buffer was full and the byte was dropped. The
  buffer is not empty afterwards, and the next \<^verbatim>\<open>uart1_getc\<close> returns that latch in its
  high byte. Nothing is said about channel 0.
\<close>

theorem rx1_isr_latch:
  assumes "rx1_ok h s" and "length (UART_RxBuf s) = UART_RX_BUFFER_SIZE h"
  shows "\<exists>s'. SIGNAL_UART1_RECEIVE_INTERRUPT h s = Some s'
          \<and> UART1_LastRxError s'
              = (if (unat (UART1_RxHead s) + 1) mod UART_RX_BUFFER_SIZE h = unat (UART1_RxTail s)
                 then ucast (drop_bit 8 (UART_BUFFER_OVERFLOW h))
                 else UART1_STATUS s AND (BV FE1 OR BV DOR1))
          \<and> UART1_RxHead s' \<noteq> UART1_RxTail s'
          \<and> (\<exists>v s''. uart1_getc h s' = Some (v, s'') \<and> ucast (drop_bit 8 v) = UART1_LastRxError s')"
proof (cases "(unat (UART1_RxHead s) + 1) mod UART_RX_BUFFER_SIZE h = unat (UART1_RxTail s)")
  case True
  from assms(1) have ok: "buffer_size_ok (UART_RX_BUFFER_SIZE h)"
    by (simp add: rx1_ok_def ring_ok_def)
  define s' where "s' = s\<lparr>UART1_LastRxError := ucast (drop_bit 8 (UART_BUFFER_OVERFLOW h))\<rparr>"
  have r: "SIGNAL_UART1_RECEIVE_INTERRUPT h s = Some s'"
    unfolding s'_def using assms(1) True by (rule rx1_isr_full)
  have "unat (UART1_RxHead s) \<noteq> unat (UART1_RxTail s)"
    using True ok assms(1)
    by (auto simp add: buffer_size_ok_def rx1_ok_def ring_ok_def mod_Suc split: if_splits)
  then have ne: "UART1_RxHead s' \<noteq> UART1_RxTail s'"
    by (auto simp add: s'_def)
  have ok': "rx1_ok h s'"
    using assms(1) by (simp add: rx1_ok_def s'_def)
  from getc1_high_byte[OF ok' ne] r ne True show ?thesis
    by (auto simp add: s'_def)
next
  case False
  from assms(1) have ok: "buffer_size_ok (UART_RX_BUFFER_SIZE h)"
    and len: "length (UART1_RxBuf s) = UART_RX_BUFFER_SIZE h"
    and tl: "unat (UART1_RxTail s) < UART_RX_BUFFER_SIZE h"
    by (simp_all add: rx1_ok_def ring_ok_def)
  define s' where "s' = s\<lparr>UART1_RxHead := of_nat ((unat (UART1_RxHead s) + 1) mod UART_RX_BUFFER_SIZE h),
                  UART_RxBuf := (UART_RxBuf s)[(unat (UART1_RxHead s) + 1) mod UART_RX_BUFFER_SIZE h :=
                     if UART1_STATUS s AND (BV FE1 OR BV DOR1) \<noteq> 0 then 0x58 else UART1_DATA s],
                  UART1_LastRxError := UART1_STATUS s AND (BV FE1 OR BV DOR1)\<rparr>"
  have r: "SIGNAL_UART1_RECEIVE_INTERRUPT h s = Some s'"
    unfolding s'_def using assms False by (rule rx1_isr_nonfull)
  have hd': "UART1_RxHead s' = next_index (UART_RX_BUFFER_MASK h) (UART1_RxHead s)"
    by (simp only: rx_next(1)[OF ok]) (simp add: s'_def)
  have u: "unat (UART1_RxHead s') = (unat (UART1_RxHead s) + 1) mod UART_RX_BUFFER_SIZE h"
    unfolding hd' using ok by (rule rx_next(2))
  have ne: "UART1_RxHead s' \<noteq> UART1_RxTail s'"
  proof
    assume "UART1_RxHead s' = UART1_RxTail s'"
    then have "unat (UART1_RxHead s') = unat (UART1_RxTail s)"
      by (simp add: s'_def)
    with u False show False
      by simp
  qed
  have "unat (UART1_RxHead s') < UART_RX_BUFFER_SIZE h"
    unfolding hd' using ok by (rule rx_next(3))
  then have ok': "rx1_ok h s'"
    using ok len tl by (simp add: rx1_ok_def ring_ok_def s'_def)
  from getc1_high_byte[OF ok' ne] r ne False show ?thesis
    by (auto simp add: s'_def)
qed


lemma fe1_8_hyps: "rx1_ok h8 fe1_8" "length (UART_RxBuf fe1_8) = UART_RX_BUFFER_SIZE h8"
  by (simp_all add: rx1_ok_def ring_ok_def buffer_size_ok_def h8_def fe1_8_def reset8_def)

theorem rx1_isr_latch_witness:
  "rx1_ok h8 fe1_8 \<and> length (UART_RxBuf fe1_8) = UART_RX_BUFFER_SIZE h8
   \<and> (\<exists>s'. SIGNAL_UART1_RECEIVE_INTERRUPT h8 fe1_8 = Some s'
          \<and> UART1_LastRxError s' = 0x10
          \<and> UART1_RxHead s' \<noteq> UART1_RxTail s'
          \<and> (\<exists>v s''. uart1_getc h8 s' = Some (v, s'') \<and> ucast (drop_bit 8 v) = UART1_LastRxError s'))"
proof -
  have v: "(if (unat (UART1_RxHead fe1_8) + 1) mod UART_RX_BUFFER_SIZE h8 = unat (UART1_RxTail fe1_8)
            then ucast (drop_bit 8 (UART_BUFFER_OVERFLOW h8))
            else UART1_STATUS fe1_8 AND (BV FE1 OR BV DOR1)) = 0x10"
    by (simp add: fe1_8_def reset8_def h8_def BV_def FE1_def DOR1_def)
  from rx1_isr_latch[OF fe1_8_hyps] fe1_8_hyps show ?thesis
    unfolding v by blast
qed

text \<open>
  The claim as stated fails. The handler of channel 0 receives a byte with a framing
  error and leaves \<^verbatim>\<open>UART_LastRxError\<close> at 0: it computes the classification and never
  stores it. The handler of channel 1, with a full buffer, stores the overflow code 0x02
  instead of the framing error 0x10.
\<close>

theorem rx1_isr_latch_counterexample:
  "UART0_STATUS fe0_8 AND (BV FE0 OR BV DOR0) = 0x10
   \<and> UART_LastRxError fe0_8 = 0
   \<and> ISR_UART0_RECEIVE_INTERRUPT h8 fe0_8
       = Some (fe0_8\<lparr>UART_RxBuf := [0x58, 0, 0, 0, 0, 0, 0, 0], UART_RxHead := 1\<rparr>)
   \<and> UART_LastRxError (fe0_8\<lparr>UART_RxBuf := [0x58, 0, 0, 0, 0, 0, 0, 0], UART_RxHead := 1\<rparr>) = 0
   \<and> UART1_STATUS fe1_full8 AND (BV FE1 OR BV DOR1) = 0x10
   \<and> SIGNAL_UART1_RECEIVE_INTERRUPT h8 fe1_full8
       = Some (fe1_full8\<lparr>UART1_LastRxError := 0x02\<rparr>)"
  by (simp add: fe0_8_def fe1_full8_def reset8_def h8_def BV_def FE0_def DOR0_def FE1_def DOR1_def
      ISR_UART0_RECEIVE_INTERRUPT_def SIGNAL_UART1_RECEIVE_INTERRUPT_def uart0_rxpush_def
      next_index_def UART_RX_BUFFER_MASK_def arr_set_def Let_def)

text \<open>No firing of the receive handler of channel 0 changes the latch of channel 0.\<close>

lemma rx0_isr_latch_unchanged:
  "ISR_UART0_RECEIVE_INTERRUPT h s = Some s' \<Longrightarrow> UART_LastRxError s' = UART_LastRxError s"
  by (auto simp add: ISR_UART0_RECEIVE_INTERRUPT_def uart0_rxpush_def Let_def arr_set_def
      split: if_splits)

text \<open>
  C6 fails on the code for channel 1. With a framing error and a receive buffer that is
  not full, \<^verbatim>\<open>SIGNAL(UART1_RECEIVE_INTERRUPT)\<close> advances \<^verbatim>\<open>UART1_RxHead\<close> and stores \<^verbatim>\<open>'X'\<close> in
  \<^verbatim>\<open>UART_RxBuf\<close>, the receive buffer of channel 0; \<^verbatim>\<open>UART1_RxBuf\<close> is left as it was.
\<close>

theorem rx1_isr_writes_other_buffer:
  "rx0_ok h8 fe1_8 \<and> rx1_ok h8 fe1_8
   \<and> UART1_STATUS fe1_8 AND (BV FE1 OR BV DOR1) = 0x10
   \<and> (unat (UART1_RxHead fe1_8) + 1) mod UART_RX_BUFFER_SIZE h8 \<noteq> unat (UART1_RxTail fe1_8)
   \<and> UART_RxBuf fe1_8 = [0, 0, 0, 0, 0, 0, 0, 0]
   \<and> UART1_RxBuf fe1_8 = [0, 0, 0, 0, 0, 0, 0, 0]
   \<and> SIGNAL_UART1_RECEIVE_INTERRUPT h8 fe1_8
       = Some (fe1_8\<lparr>UART1_RxHead := 1, UART_RxBuf := [0, 0x58, 0, 0, 0, 0, 0, 0],
                      UART1_LastRxError := 0x10\<rparr>)
   \<and> UART1_RxBuf (fe1_8\<lparr>UART1_RxHead := 1, UART_RxBuf := [0, 0x58, 0, 0, 0, 0, 0, 0],
                      UART1_LastRxError := 0x10\<rparr>) = [0, 0, 0, 0, 0, 0, 0, 0]"
  by (simp add: rx0_ok_def rx1_ok_def ring_ok_def buffer_size_ok_def
      fe1_8_def reset8_def h8_def BV_def FE1_def DOR1_def
      SIGNAL_UART1_RECEIVE_INTERRUPT_def
      next_index_def UART_RX_BUFFER_MASK_def arr_set_def Let_def)

text \<open>The handler of channel 0 stores \<^verbatim>\<open>'X'\<close> in its own buffer and advances its own head.\<close>

lemma rxpush_nonfull:
  assumes "rx0_ok h s"
    and "(unat (UART_RxHead s) + 1) mod UART_RX_BUFFER_SIZE h \<noteq> unat (UART_RxTail s)"
  shows "uart0_rxpush h d s
         = Some (1, s\<lparr>UART_RxBuf := (UART_RxBuf s)[unat (UART_RxHead s) := d],
                     UART_RxHead := of_nat ((unat (UART_RxHead s) + 1) mod UART_RX_BUFFER_SIZE h)\<rparr>)"
proof -
  from assms(1) have ok: "buffer_size_ok (UART_RX_BUFFER_SIZE h)"
    and len: "length (UART_RxBuf s) = UART_RX_BUFFER_SIZE h"
    and hd: "unat (UART_RxHead s) < UART_RX_BUFFER_SIZE h"
    by (simp_all add: rx0_ok_def ring_ok_def)
  have "unat (UART_RxTail s) \<noteq> unat (next_index (UART_RX_BUFFER_MASK h) (UART_RxHead s))"
    using assms(2) by (simp only: rx_next(2)[OF ok])
  then have ne: "UART_RxTail s \<noteq> next_index (UART_RX_BUFFER_MASK h) (UART_RxHead s)"
    by auto
  have step: "uart0_rxpush h d s
      = Some (1, s\<lparr>UART_RxBuf := (UART_RxBuf s)[unat (UART_RxHead s) := d],
                  UART_RxHead := next_index (UART_RX_BUFFER_MASK h) (UART_RxHead s)\<rparr>)"
    using ne len hd by (simp add: uart0_rxpush_def arr_set_def Let_def)
  show ?thesis
    by (simp only: step rx_next(1)[OF ok])
qed

lemma rx0_isr_error:
  assumes "rx0_ok h s"
    and "(unat (UART_RxHead s) + 1) mod UART_RX_BUFFER_SIZE h \<noteq> unat (UART_RxTail s)"
    and "UART0_STATUS s AND (BV FE0 OR BV DOR0) \<noteq> 0"
  shows "ISR_UART0_RECEIVE_INTERRUPT h s
         = Some (s\<lparr>UART_RxBuf := (UART_RxBuf s)[unat (UART_RxHead s) := 0x58],
                  UART_RxHead := of_nat ((unat (UART_RxHead s) + 1) mod UART_RX_BUFFER_SIZE h)\<rparr>)"
  using assms(3)
  by (simp add: ISR_UART0_RECEIVE_INTERRUPT_def Let_def rxpush_nonfull[OF assms(1,2)])

subsection \<open>Line accumulator\<close>

lemma read1_append:
  assumes "rx1_ok h s" and "UART_RX_BUFFER_SIZE h \<le> length (msg uart)"
    and "UART1_RxTail s \<noteq> UART1_RxHead s" and "index uart < UART_RX_BUFFER_SIZE h - 1"
  shows "uart1_read h uart s
         = Some (Literal_empty,
                 uart\<lparr>msg := (msg uart)[index uart :=
                            UART1_RxBuf s ! ((unat (UART1_RxTail s) + 1) mod UART_RX_BUFFER_SIZE h),
                          index uart + 1 := 0],
                      index := index uart + 1\<rparr>,
                 s\<lparr>UART1_RxTail := of_nat ((unat (UART1_RxTail s) + 1) mod UART_RX_BUFFER_SIZE h)\<rparr>)"
proof -
  from assms(1) have ok: "buffer_size_ok (UART_RX_BUFFER_SIZE h)"
    and len: "length (UART1_RxBuf s) = UART_RX_BUFFER_SIZE h"
    by (simp_all add: rx1_ok_def ring_ok_def)
  have lt: "unat (next_index (UART_RX_BUFFER_MASK h) (UART1_RxTail s)) < length (UART1_RxBuf s)"
    unfolding len using ok by (rule rx_next(3))
  have g: "int (index uart) < UART_RX_BUFFER_MASK h"
    using assms(4) by (simp add: UART_RX_BUFFER_MASK_def)
  have i: "index uart < length (msg uart)" "index uart + 1 < length (msg uart)"
    using assms(2,4) by simp_all
  have step: "uart1_read h uart s
      = Some (Literal_empty,
              uart\<lparr>msg := (msg uart)[index uart :=
                         UART1_RxBuf s ! unat (next_index (UART_RX_BUFFER_MASK h) (UART1_RxTail s)),
                       index uart + 1 := 0],
                   index := index uart + 1\<rparr>,
              s\<lparr>UART1_RxTail := next_index (UART_RX_BUFFER_MASK h) (UART1_RxTail s)\<rparr>)"
    using assms(3) g i lt by (simp add: uart1_read_def arr_get_def arr_set_def Let_def)
  show ?thesis
    by (simp only: step rx_next(2)[OF ok]) (simp only: rx_next(1)[OF ok])
qed

lemma read1_reset:
  assumes "UART1_RxTail s = UART1_RxHead s \<or> UART_RX_BUFFER_SIZE h - 1 \<le> index uart"
  shows "uart1_read h uart s = Some (Struct_msg, uart\<lparr>index := 0\<rparr>, s)"
proof -
  have c: "(UART1_RxTail s \<noteq> UART1_RxHead s \<and> int (index uart) < UART_RX_BUFFER_MASK h) = False"
    using assms by (auto simp add: UART_RX_BUFFER_MASK_def)
  show ?thesis
    unfolding uart1_read_def Let_def c by simp
qed

lemma read0_empty:
  "UART_RxTail s = UART_RxHead s \<Longrightarrow> uart_read h uart s = Some (uart\<lparr>index := 0\<rparr>, s)"
  by (simp add: uart_read_def rxpop_empty)

lemma read0_null:
  assumes "rx0_ok h s" and "UART_RxTail s \<noteq> UART_RxHead s"
    and "UART_RxBuf s ! unat (UART_RxTail s) = 0"
  shows "uart_read h uart s
         = Some (uart\<lparr>index := 0\<rparr>,
                 s\<lparr>UART_RxTail := of_nat ((unat (UART_RxTail s) + 1) mod UART_RX_BUFFER_SIZE h)\<rparr>)"
proof -
  from assms(2) have "UART_RxHead s \<noteq> UART_RxTail s"
    by simp
  from rxpop_nonempty[OF assms(1) this] assms(3) show ?thesis
    by (simp add: uart_read_def)
qed

text \<open>
  C9, as the code has it. With a \<open>msg\<close> array of at least \<^verbatim>\<open>UART_RX_BUFFER_SIZE\<close> elements,
  every call of \<^verbatim>\<open>uart1_read\<close> returns with the cursor at most \<^verbatim>\<open>UART_RX_BUFFER_MASK\<close> and
  writes no element of \<open>msg\<close> beyond that index. When the receive buffer is empty or the
  cursor has reached the bound, it resets the cursor to 0, writes nothing, leaves the
  receive buffer as it is and returns \<open>msg\<close>. Otherwise it advances the tail, stores the
  byte at the new tail (null or not) at the cursor, advances the cursor by one, stores
  the terminator there and returns the literal \<^verbatim>\<open>"empty"\<close>. \<^verbatim>\<open>uart_read\<close> resets the cursor
  to 0 and writes nothing whenever \<^verbatim>\<open>uart0_rxpop\<close> returns the null byte: on an empty
  buffer, which it leaves alone, and on a null byte at the tail, which it consumes.
  Nothing is said about the bound of \<^verbatim>\<open>uart_read\<close>.
\<close>

theorem read_cursor:
  "(rx1_ok h s \<and> UART_RX_BUFFER_SIZE h \<le> length (msg uart) \<longrightarrow>
      (\<exists>r u' s'. uart1_read h uart s = Some (r, u', s')
         \<and> index u' \<le> UART_RX_BUFFER_SIZE h - 1
         \<and> length (msg u') = length (msg uart)
         \<and> drop (UART_RX_BUFFER_SIZE h) (msg u') = drop (UART_RX_BUFFER_SIZE h) (msg uart)
         \<and> (UART1_RxTail s = UART1_RxHead s \<or> UART_RX_BUFFER_SIZE h - 1 \<le> index uart
              \<longrightarrow> r = Struct_msg \<and> u' = uart\<lparr>index := 0\<rparr> \<and> s' = s)
         \<and> (UART1_RxTail s \<noteq> UART1_RxHead s \<and> index uart < UART_RX_BUFFER_SIZE h - 1
              \<longrightarrow> r = Literal_empty
                \<and> u' = uart\<lparr>msg := (msg uart)[index uart :=
                              UART1_RxBuf s ! ((unat (UART1_RxTail s) + 1) mod UART_RX_BUFFER_SIZE h),
                            index uart + 1 := 0],
                          index := index uart + 1\<rparr>
                \<and> s' = s\<lparr>UART1_RxTail :=
                           of_nat ((unat (UART1_RxTail s) + 1) mod UART_RX_BUFFER_SIZE h)\<rparr>)))
   \<and> (rx0_ok h s \<longrightarrow>
        (UART_RxTail s = UART_RxHead s \<longrightarrow> uart_read h uart s = Some (uart\<lparr>index := 0\<rparr>, s))
      \<and> (UART_RxTail s \<noteq> UART_RxHead s \<and> UART_RxBuf s ! unat (UART_RxTail s) = 0 \<longrightarrow>
           uart_read h uart s
           = Some (uart\<lparr>index := 0\<rparr>,
                   s\<lparr>UART_RxTail := of_nat ((unat (UART_RxTail s) + 1) mod UART_RX_BUFFER_SIZE h)\<rparr>)))"
proof (intro conjI impI)
  assume a: "rx1_ok h s \<and> UART_RX_BUFFER_SIZE h \<le> length (msg uart)"
  show "\<exists>r u' s'. uart1_read h uart s = Some (r, u', s')
         \<and> index u' \<le> UART_RX_BUFFER_SIZE h - 1
         \<and> length (msg u') = length (msg uart)
         \<and> drop (UART_RX_BUFFER_SIZE h) (msg u') = drop (UART_RX_BUFFER_SIZE h) (msg uart)
         \<and> (UART1_RxTail s = UART1_RxHead s \<or> UART_RX_BUFFER_SIZE h - 1 \<le> index uart
              \<longrightarrow> r = Struct_msg \<and> u' = uart\<lparr>index := 0\<rparr> \<and> s' = s)
         \<and> (UART1_RxTail s \<noteq> UART1_RxHead s \<and> index uart < UART_RX_BUFFER_SIZE h - 1
              \<longrightarrow> r = Literal_empty
                \<and> u' = uart\<lparr>msg := (msg uart)[index uart :=
                              UART1_RxBuf s ! ((unat (UART1_RxTail s) + 1) mod UART_RX_BUFFER_SIZE h),
                            index uart + 1 := 0],
                          index := index uart + 1\<rparr>
                \<and> s' = s\<lparr>UART1_RxTail :=
                           of_nat ((unat (UART1_RxTail s) + 1) mod UART_RX_BUFFER_SIZE h)\<rparr>)"
  proof (cases "UART1_RxTail s = UART1_RxHead s \<or> UART_RX_BUFFER_SIZE h - 1 \<le> index uart")
    case True
    then show ?thesis
      by (auto simp add: read1_reset)
  next
    case False
    then have n: "UART1_RxTail s \<noteq> UART1_RxHead s" "index uart < UART_RX_BUFFER_SIZE h - 1"
      by simp_all
    from a have b: "rx1_ok h s" "UART_RX_BUFFER_SIZE h \<le> length (msg uart)"
      by simp_all
    have i: "index uart < UART_RX_BUFFER_SIZE h" "Suc (index uart) < UART_RX_BUFFER_SIZE h"
      using n(2) by simp_all
    show ?thesis
      unfolding read1_append[OF b n] using False i by (simp add: drop_update_cancel)
  qed
next
  assume "UART_RxTail s = UART_RxHead s"
  then show "uart_read h uart s = Some (uart\<lparr>index := 0\<rparr>, s)"
    by (rule read0_empty)
next
  assume "rx0_ok h s" and "UART_RxTail s \<noteq> UART_RxHead s \<and> UART_RxBuf s ! unat (UART_RxTail s) = 0"
  then show "uart_read h uart s
           = Some (uart\<lparr>index := 0\<rparr>,
                   s\<lparr>UART_RxTail := of_nat ((unat (UART_RxTail s) + 1) mod UART_RX_BUFFER_SIZE h)\<rparr>)"
    using read0_null by blast
qed

theorem read_cursor_witness:
  "rx1_ok h8 rx_two8 \<and> UART_RX_BUFFER_SIZE h8 \<le> length (msg (struct8\<lparr>index := 3\<rparr>))
   \<and> UART1_RxTail rx_two8 \<noteq> UART1_RxHead rx_two8
   \<and> index (struct8\<lparr>index := 3\<rparr>) < UART_RX_BUFFER_SIZE h8 - 1
   \<and> uart1_read h8 (struct8\<lparr>index := 3\<rparr>) rx_two8
       = Some (Literal_empty, struct8\<lparr>msg := [0, 0, 0, 0x22, 0, 0, 0, 0], index := 4\<rparr>,
               rx_two8\<lparr>UART1_RxTail := 2\<rparr>)
   \<and> UART_RX_BUFFER_SIZE h8 - 1 \<le> index (struct8\<lparr>index := 7\<rparr>)
   \<and> uart1_read h8 (struct8\<lparr>index := 7\<rparr>) rx_two8 = Some (Struct_msg, struct8, rx_two8)
   \<and> rx1_ok h8 reset8 \<and> UART1_RxTail reset8 = UART1_RxHead reset8
   \<and> uart1_read h8 (struct8\<lparr>index := 3\<rparr>) reset8 = Some (Struct_msg, struct8, reset8)
   \<and> rx0_ok h8 nul8 \<and> UART_RxTail nul8 \<noteq> UART_RxHead nul8
   \<and> UART_RxBuf nul8 ! unat (UART_RxTail nul8) = 0
   \<and> uart_read h8 (struct8\<lparr>index := 3\<rparr>) nul8 = Some (struct8, nul8\<lparr>UART_RxTail := 1\<rparr>)
   \<and> rx0_ok h8 reset8 \<and> UART_RxTail reset8 = UART_RxHead reset8
   \<and> uart_read h8 (struct8\<lparr>index := 3\<rparr>) reset8 = Some (struct8, reset8)"
proof -
  define u3 where "u3 = struct8\<lparr>index := 3\<rparr>"
  define u7 where "u7 = struct8\<lparr>index := 7\<rparr>"
  have a: "UART_RX_BUFFER_SIZE h8 \<le> length (msg u3)" "UART_RX_BUFFER_SIZE h8 \<le> length (msg u7)"
    "UART1_RxTail rx_two8 \<noteq> UART1_RxHead rx_two8" "index u3 < UART_RX_BUFFER_SIZE h8 - 1"
    "UART_RX_BUFFER_SIZE h8 - 1 \<le> index u7"
    "UART1_RxTail reset8 = UART1_RxHead reset8" "UART_RxTail reset8 = UART_RxHead reset8"
    "UART_RxTail nul8 \<noteq> UART_RxHead nul8" "UART_RxBuf nul8 ! unat (UART_RxTail nul8) = 0"
    by (simp_all add: u3_def u7_def h8_def struct8_def reset8_def rx_two8_def nul8_def)
  have e1: "uart1_read h8 u3 rx_two8
      = Some (Literal_empty,
              u3\<lparr>msg := (msg u3)[index u3 :=
                         UART1_RxBuf rx_two8 ! ((unat (UART1_RxTail rx_two8) + 1) mod UART_RX_BUFFER_SIZE h8),
                       index u3 + 1 := 0],
                   index := index u3 + 1\<rparr>,
              rx_two8\<lparr>UART1_RxTail :=
                 of_nat ((unat (UART1_RxTail rx_two8) + 1) mod UART_RX_BUFFER_SIZE h8)\<rparr>)"
    using read_cursor[of h8 rx_two8 u3] rx_two8_ok(2) a(1,3,4) by blast
  have e2: "uart1_read h8 u7 rx_two8 = Some (Struct_msg, u7\<lparr>index := 0\<rparr>, rx_two8)"
    using read_cursor[of h8 rx_two8 u7] rx_two8_ok(2) a(2,5) by blast
  have e3: "uart1_read h8 u3 reset8 = Some (Struct_msg, u3\<lparr>index := 0\<rparr>, reset8)"
    using read_cursor[of h8 reset8 u3] reset8_ok(3) a(1,6) by blast
  have e4: "uart_read h8 u3 nul8
      = Some (u3\<lparr>index := 0\<rparr>,
              nul8\<lparr>UART_RxTail := of_nat ((unat (UART_RxTail nul8) + 1) mod UART_RX_BUFFER_SIZE h8)\<rparr>)"
    using read_cursor[of h8 nul8 u3] nul8_ok(2) a(8,9) by blast
  have e5: "uart_read h8 u3 reset8 = Some (u3\<lparr>index := 0\<rparr>, reset8)"
    using read_cursor[of h8 reset8 u3] reset8_ok(2) a(7) by blast
  have v: "u3\<lparr>msg := (msg u3)[index u3 :=
                         UART1_RxBuf rx_two8 ! ((unat (UART1_RxTail rx_two8) + 1) mod UART_RX_BUFFER_SIZE h8),
                       index u3 + 1 := 0],
                   index := index u3 + 1\<rparr> = struct8\<lparr>msg := [0, 0, 0, 0x22, 0, 0, 0, 0], index := 4\<rparr>"
    "word_of_nat ((unat (UART1_RxTail rx_two8) + 1) mod UART_RX_BUFFER_SIZE h8) = (2 :: u8)"
    "word_of_nat ((unat (UART_RxTail nul8) + 1) mod UART_RX_BUFFER_SIZE h8) = (1 :: u8)"
    "u3\<lparr>index := 0\<rparr> = struct8" "u7\<lparr>index := 0\<rparr> = struct8"
    by (simp_all add: u3_def u7_def h8_def struct8_def reset8_def rx_two8_def nul8_def)
  show ?thesis
    using e1 e2 e3 e4 e5 a rx_two8_ok(2) reset8_ok(2,3) nul8_ok(2)
    unfolding v u3_def [symmetric] u7_def [symmetric] by blast
qed

text \<open>
  The claim as stated fails in both functions. \<^verbatim>\<open>uart_read\<close> has no bound check: with a
  \<open>msg\<close> of eight elements, seven bytes received and read one by one leave the cursor at
  7 with the terminator in the last element; the eighth byte is stored there, the
  cursor becomes 8, and the terminator is written behind the array. \<^verbatim>\<open>uart1_read\<close> does
  not reset the cursor on a null byte: after reset and one reception on channel 1 the
  byte it pops from \<^verbatim>\<open>UART1_RxBuf\<close> is 0, and the cursor goes from 0 to 1; after a second
  reception it pops 0 again and the cursor goes to 2.
\<close>

theorem read_cursor_counterexample:
  "length (msg struct8) = 8 \<and> index struct8 = 0
   \<and> receive_and_read h8 [0x61, 0x62, 0x63, 0x64, 0x65, 0x66, 0x67] (struct8, reset8)
      = Some (struct8\<lparr>index := 7, msg := [0x61, 0x62, 0x63, 0x64, 0x65, 0x66, 0x67, 0]\<rparr>,
              reset8\<lparr>UART_RxBuf := [0x61, 0x62, 0x63, 0x64, 0x65, 0x66, 0x67, 0],
                     UART_RxHead := 7, UART_RxTail := 7,
                     UART0_STATUS := 0x80, UART0_DATA := 0x67\<rparr>)
   \<and> receive_and_read h8 [0x61, 0x62, 0x63, 0x64, 0x65, 0x66, 0x67, 0x68] (struct8, reset8) = None
   \<and> SIGNAL_UART1_RECEIVE_INTERRUPT h8 clean1_8 = Some rcv1_8
   \<and> UART1_RxBuf rcv1_8 ! 1 = 0
   \<and> uart1_read h8 struct8 rcv1_8
      = Some (Literal_empty, struct8\<lparr>index := 1\<rparr>, rcv1_8\<lparr>UART1_RxTail := 1\<rparr>)
   \<and> SIGNAL_UART1_RECEIVE_INTERRUPT h8 (rcv1_8\<lparr>UART1_RxTail := 1\<rparr>)
      = Some (rcv1_8\<lparr>UART1_RxTail := 1, UART1_RxHead := 2,
                      UART_RxBuf := [0, 0x41, 0x41, 0, 0, 0, 0, 0]\<rparr>)
   \<and> uart1_read h8 (struct8\<lparr>index := 1\<rparr>)
        (rcv1_8\<lparr>UART1_RxTail := 1, UART1_RxHead := 2,
                UART_RxBuf := [0, 0x41, 0x41, 0, 0, 0, 0, 0]\<rparr>)
      = Some (Literal_empty, struct8\<lparr>index := 2\<rparr>,
              rcv1_8\<lparr>UART1_RxTail := 2, UART1_RxHead := 2,
                      UART_RxBuf := [0, 0x41, 0x41, 0, 0, 0, 0, 0]\<rparr>)"
  by (simp add: struct8_def reset8_def h8_def clean1_8_def rcv1_8_def
      ISR_UART0_RECEIVE_INTERRUPT_def SIGNAL_UART1_RECEIVE_INTERRUPT_def uart_read_def uart1_read_def
      uart0_rxpush_def uart0_rxpop_def next_index_def UART_RX_BUFFER_MASK_def
      arr_set_def arr_get_def Let_def BV_def FE0_def DOR0_def FE1_def DOR1_def)

end
